theory Spec2Isabelle
  imports Complex_Main
begin

section \<open>Tensors\<close>

text \<open>
  \<^verbatim>\<open>gmflow_minimal.py\<close> computes on \<^verbatim>\<open>torch\<close> tensors. A tensor is modelled by its
  shape and its elements in row-major (contiguous) order, which is the order
  \<^verbatim>\<open>view\<close> and \<^verbatim>\<open>reshape\<close> read. An element is the real number a floating-point
  value denotes; NaN and infinities are not part of the model. Moving elements around
  (\<^verbatim>\<open>view\<close>, \<^verbatim>\<open>cat\<close>, \<^verbatim>\<open>unfold\<close>, \<^verbatim>\<open>permute\<close>, \<^verbatim>\<open>stack\<close>, \<^verbatim>\<open>chunk\<close>) is exact.
  Whatever the library computes with rounding is a kernel, a parameter of the model
  (see \<open>kernels\<close> below): no rounding is assumed away.
\<close>

text \<open>The Python exceptions the module and the library calls it makes can raise.\<close>

datatype error =
    TypeError
  | IndexError
  | ValueError
  | AssertionError
  | AttributeError
  | RuntimeError
  | NotImplementedError

definition and_then :: "error + 'a \<Rightarrow> ('a \<Rightarrow> error + 'b) \<Rightarrow> error + 'b" where
  "and_then r f = (case r of Inl e \<Rightarrow> Inl e | Inr x \<Rightarrow> f x)"

record tensor =
  shape :: "nat list"
  elems :: "real list"

text \<open>Row-major offset of a multi-index, and the multi-index of an offset.\<close>

fun ravel :: "nat list \<Rightarrow> nat list \<Rightarrow> nat" where
  "ravel (d # ds) (i # js) = i * prod_list ds + ravel ds js"
| "ravel _ _ = 0"

fun unravel :: "nat list \<Rightarrow> nat \<Rightarrow> nat list" where
  "unravel [] k = []"
| "unravel (d # ds) k = (k div prod_list ds) # unravel ds (k mod prod_list ds)"

definition valid_index :: "nat list \<Rightarrow> nat list \<Rightarrow> bool" where
  "valid_index sh idx = list_all2 (\<lambda>i d. i < d) idx sh"

definition elem :: "tensor \<Rightarrow> nat list \<Rightarrow> real" where
  "elem t idx = elems t ! ravel (shape t) idx"

definition tabulate :: "nat list \<Rightarrow> (nat list \<Rightarrow> real) \<Rightarrow> tensor" where
  "tabulate sh f = \<lparr>shape = sh, elems = map (\<lambda>k. f (unravel sh k)) [0..<prod_list sh]\<rparr>"


text \<open>
  \<^verbatim>\<open>Tensor.view(*sizes)\<close> and \<^verbatim>\<open>Tensor.reshape(*sizes)\<close> with non-negative sizes: the
  same elements under another shape; a size list with another element count raises.
\<close>

definition view :: "tensor \<Rightarrow> nat list \<Rightarrow> error + tensor" where
  "view t sh = (if prod_list sh = length (elems t) then Inr (t\<lparr>shape := sh\<rparr>)
                else Inl RuntimeError)"

text \<open>
  \<^verbatim>\<open>torch.cat((a, b), dim)\<close>: both tensors have the same number of dimensions and the
  same sizes except in dimension \<open>ax\<close>; a zero-dimensional tensor cannot be
  concatenated; a one-dimensional empty tensor is skipped.
\<close>

definition cat :: "nat \<Rightarrow> tensor \<Rightarrow> tensor \<Rightarrow> error + tensor" where
  "cat ax a b =
     (if shape a = [] \<or> shape b = [] then Inl RuntimeError
      else if shape a = [0] then Inr b
      else if shape b = [0] then Inr a
      else if length (shape a) \<le> ax then Inl IndexError
      else if length (shape a) = length (shape b) \<and> (shape a)[ax := 0] = (shape b)[ax := 0]
      then Inr (tabulate ((shape a)[ax := shape a ! ax + shape b ! ax])
                 (\<lambda>idx. if idx ! ax < shape a ! ax then elem a idx
                        else elem b (idx[ax := idx ! ax - shape a ! ax])))
      else Inl RuntimeError)"

text \<open>
  The kernels of the library, for the floating-point type and the device of the
  tensors. Each is the function the library computes, rounding included:

    \<^item> \<open>k_scale c v\<close>: the element \<open>v\<close> times the Python integer \<open>c\<close>;
    \<^item> \<open>k_add v v'\<close> and \<open>k_mul v v'\<close>: the sum and the product of two elements;
    \<^item> \<open>k_sum vs\<close>: \<^verbatim>\<open>torch.sum\<close> of the elements \<open>vs\<close> along one dimension;
    \<^item> \<open>k_softmax vs i\<close>: entry \<open>i\<close> of \<^verbatim>\<open>torch.softmax\<close> of the elements \<open>vs\<close> along one
      dimension;
    \<^item> \<open>k_bilinear h w oh ow plane oy ox\<close>: the value at \<open>(oy, ox)\<close> of the bilinear
      interpolation (\<^verbatim>\<open>align_corners=True\<close>) of the \<open>h\<close> by \<open>w\<close> plane \<open>plane\<close> to
      \<open>oh\<close> by \<open>ow\<close>;
    \<^item> \<open>k_max_numel\<close>: the largest size and number of elements of an input or a result
      for which the interpolation does not raise (a device kernel may index with 32
      bits, and the result has to be allocated).
\<close>

record kernels =
  k_scale :: "int \<Rightarrow> real \<Rightarrow> real"
  k_add :: "real \<Rightarrow> real \<Rightarrow> real"
  k_mul :: "real \<Rightarrow> real \<Rightarrow> real"
  k_sum :: "real list \<Rightarrow> real"
  k_softmax :: "real list \<Rightarrow> nat \<Rightarrow> real"
  k_bilinear :: "nat \<Rightarrow> nat \<Rightarrow> nat \<Rightarrow> nat \<Rightarrow> (nat \<Rightarrow> nat \<Rightarrow> real) \<Rightarrow> nat \<Rightarrow> nat \<Rightarrow> real"
  k_max_numel :: nat

text \<open>
  Sizes and element counts are 64-bit signed integers. A shape fits when its sizes and
  its number of elements are within that range and within the limit of the kernels.
\<close>

definition max_numel :: "kernels \<Rightarrow> nat" where
  "max_numel k = min (k_max_numel k) (2 ^ 63 - 1)"

definition fits :: "kernels \<Rightarrow> nat list \<Rightarrow> bool" where
  "fits k sh = (prod_list sh \<le> max_numel k \<and> list_all (\<lambda>d. d \<le> max_numel k) sh)"

text \<open>A Python integer times a tensor.\<close>

definition mul_scalar :: "kernels \<Rightarrow> int \<Rightarrow> tensor \<Rightarrow> tensor" where
  "mul_scalar k c t = t\<lparr>elems := map (k_scale k c) (elems t)\<rparr>"

text \<open>\<^verbatim>\<open>torch.softmax(t, dim)\<close>, for \<open>ax\<close> a dimension of \<open>t\<close>.\<close>

definition softmax :: "kernels \<Rightarrow> nat \<Rightarrow> tensor \<Rightarrow> tensor" where
  "softmax k ax t =
     tabulate (shape t)
       (\<lambda>idx. k_softmax k (map (\<lambda>j. elem t (idx[ax := j])) [0..<shape t ! ax]) (idx ! ax))"

text \<open>
  \<^verbatim>\<open>F.unfold(t, [3, 3], padding=1)\<close> on a batched input \<open>[b, c, h, w]\<close>: the result
  \<open>[b, c * 9, h * w]\<close> holds, for every position, the 3x3 window around it, the
  positions outside the input reading 0.
\<close>

definition padded :: "tensor \<Rightarrow> nat \<Rightarrow> nat \<Rightarrow> int \<Rightarrow> int \<Rightarrow> real" where
  "padded t n ch y x =
     (if 0 \<le> y \<and> y < int (shape t ! 2) \<and> 0 \<le> x \<and> x < int (shape t ! 3)
      then elem t [n, ch, nat y, nat x] else 0)"

definition unfold3 :: "tensor \<Rightarrow> error + tensor" where
  "unfold3 t =
     (case shape t of
        [b, c, h, w] \<Rightarrow>
          if c = 0 \<or> h = 0 \<or> w = 0 then Inl RuntimeError
          else Inr (tabulate [b, c * 9, h * w]
                 (\<lambda>idx. padded t (idx ! 0) (idx ! 1 div 9)
                          (int (idx ! 2 div w) + int ((idx ! 1 mod 9) div 3) - 1)
                          (int (idx ! 2 mod w) + int ((idx ! 1 mod 9) mod 3) - 1)))
      | _ \<Rightarrow> Inl RuntimeError)"

text \<open>
  An elementwise binary operator with broadcasting: shapes are aligned at their last
  dimension, and a dimension of size 1 is repeated.
\<close>

fun bcast_dims :: "nat list \<Rightarrow> nat list \<Rightarrow> nat list option" where
  "bcast_dims [] [] = Some []"
| "bcast_dims (d # ds) (e # es) =
     (if d = e \<or> e = 1 then map_option ((#) d) (bcast_dims ds es)
      else if d = 1 then map_option ((#) e) (bcast_dims ds es)
      else None)"
| "bcast_dims _ _ = None"

definition lpad :: "nat \<Rightarrow> nat list \<Rightarrow> nat list" where
  "lpad n sh = replicate (n - length sh) 1 @ sh"

definition bcast_index :: "nat list \<Rightarrow> nat list \<Rightarrow> nat list" where
  "bcast_index sh idx =
     map2 (\<lambda>d i. if d = 1 then 0 else i) sh (drop (length idx - length sh) idx)"

definition binop :: "(real \<Rightarrow> real \<Rightarrow> real) \<Rightarrow> tensor \<Rightarrow> tensor \<Rightarrow> error + tensor" where
  "binop f a b =
     (let n = max (length (shape a)) (length (shape b)) in
      case bcast_dims (lpad n (shape a)) (lpad n (shape b)) of
        None \<Rightarrow> Inl RuntimeError
      | Some sh \<Rightarrow>
          Inr (tabulate sh (\<lambda>idx. f (elem a (bcast_index (shape a) idx))
                                    (elem b (bcast_index (shape b) idx)))))"

text \<open>\<^verbatim>\<open>torch.sum(t, dim)\<close>, for \<open>ax\<close> a dimension of \<open>t\<close>.\<close>

definition sum_dim :: "kernels \<Rightarrow> nat \<Rightarrow> tensor \<Rightarrow> tensor" where
  "sum_dim k ax t =
     tabulate (take ax (shape t) @ drop (Suc ax) (shape t))
       (\<lambda>idx. k_sum k (map (\<lambda>j. elem t (take ax idx @ j # drop ax idx)) [0..<shape t ! ax]))"

text \<open>
  \<^verbatim>\<open>Tensor.permute(*dims)\<close>: dimension \<open>j\<close> of the result is dimension \<open>dims ! j\<close> of
  the input. The model lays the result out in row-major order, as the \<^verbatim>\<open>reshape\<close>
  that follows it in the source does.
\<close>

definition position :: "nat list \<Rightarrow> nat \<Rightarrow> nat" where
  "position p k = length (takeWhile (\<lambda>j. j \<noteq> k) p)"

definition permute :: "tensor \<Rightarrow> nat list \<Rightarrow> error + tensor" where
  "permute t p =
     (if length p = length (shape t) \<and> distinct p \<and> list_all (\<lambda>k. k < length p) p
      then Inr (tabulate (map (\<lambda>k. shape t ! k) p)
                 (\<lambda>idx. elem t (map (\<lambda>k. idx ! position p k) [0..<length p])))
      else Inl RuntimeError)"

text \<open>
  \<^verbatim>\<open>F.interpolate(t, scale_factor=f, mode='bilinear', align_corners=True)\<close> for an
  integer \<open>f\<close>: the input is \<open>[b, c, h, w]\<close>, the output \<open>[b, c, h * f, w * f]\<close>; every
  plane \<open>(n, ch)\<close> of the output is the interpolation of the plane \<open>(n, ch)\<close> of the
  input. A factor below 1, an empty plane, and an input or an output that does not fit
  raise.
\<close>

definition interpolate :: "kernels \<Rightarrow> tensor \<Rightarrow> int \<Rightarrow> error + tensor" where
  "interpolate k t f =
     (case shape t of
        [b, c, h, w] \<Rightarrow>
          if f \<le> 0 \<or> c = 0 \<or> h = 0 \<or> w = 0 then Inl RuntimeError
          else if \<not> fits k [b, c, h, w] \<or> \<not> fits k [b, c, h * nat f, w * nat f]
          then Inl RuntimeError
          else Inr (tabulate [b, c, h * nat f, w * nat f]
                 (\<lambda>idx. k_bilinear k h w (h * nat f) (w * nat f)
                          (\<lambda>y x. elem t [idx ! 0, idx ! 1, y, x]) (idx ! 2) (idx ! 3)))
      | _ \<Rightarrow> Inl NotImplementedError)"

section \<open>The model and its collaborators\<close>

text \<open>
  The fields of \<^verbatim>\<open>GMFlow\<close> that \<^verbatim>\<open>__init__\<close> sets, and \<^verbatim>\<open>training\<close> of
  \<^verbatim>\<open>nn.Module\<close>. The backbone (default \<^verbatim>\<open>None\<close>), the propagation layer
  \<^verbatim>\<open>FeatureFlowAttention\<close> and the learned network \<^verbatim>\<open>self.upsampler\<close> are
  functions from their arguments to a tensor or an exception: their code and weights
  are not in this module. \<open>arith\<close> is not a field of the class: it holds the kernels of
  the floating-point type and the device the module and its tensors live on.
\<close>

record gmflow =
  num_scales :: int
  feature_channels :: int
  upsample_factor :: int
  attention_type :: string
  num_transformer_layers :: int
  training :: bool
  backbone :: "(tensor \<Rightarrow> error + tensor) option"
  feature_flow_attn :: "tensor \<Rightarrow> tensor \<Rightarrow> bool \<Rightarrow> int \<Rightarrow> error + tensor"
  upsampler :: "tensor \<Rightarrow> error + tensor"
  arith :: kernels

text \<open>
  The functions imported from \<^verbatim>\<open>.matching\<close> and \<^verbatim>\<open>.geometry\<close>; each stands for the
  first component of what the Python function returns, where the source takes \<^verbatim>\<open>[0]\<close>.
\<close>

record externals =
  global_correlation_softmax :: "tensor \<Rightarrow> tensor \<Rightarrow> bool \<Rightarrow> error + tensor"
  local_correlation_softmax :: "tensor \<Rightarrow> tensor \<Rightarrow> int \<Rightarrow> error + tensor"
  flow_warp :: "tensor \<Rightarrow> tensor \<Rightarrow> error + tensor"

section \<open>upsample\_flow\<close>

text \<open>
  Lines 62 to 67: the mask. \<^verbatim>\<open>feature\<close> is \<^verbatim>\<open>None\<close> at one call site, where
  \<^verbatim>\<open>torch.cat\<close> raises; \<^verbatim>\<open>b, flow_channel, h, w = flow.shape\<close> needs four
  dimensions; \<^verbatim>\<open>view\<close> refuses a negative size other than a single -1.
\<close>

definition convex_mask :: "gmflow \<Rightarrow> tensor \<Rightarrow> tensor option \<Rightarrow> error + tensor" where
  "convex_mask m flow feature =
     (case feature of
        None \<Rightarrow> Inl TypeError
      | Some feat \<Rightarrow>
          and_then (cat 1 flow feat) (\<lambda>concat.
          and_then (upsampler m concat) (\<lambda>msk.
            case shape flow of
              [b, flow_channel, h, w] \<Rightarrow>
                if upsample_factor m < 0 then Inl RuntimeError
                else and_then
                  (view msk [b, 1, 9, nat (upsample_factor m), nat (upsample_factor m), h, w])
                  (\<lambda>msk. Inr (softmax (arith m) 2 msk))
            | _ \<Rightarrow> Inl ValueError)))"

text \<open>Lines 69 and 70: the 3x3 windows of the scaled flow, as \<open>[b, c, 9, 1, 1, h, w]\<close>.\<close>

definition convex_windows :: "gmflow \<Rightarrow> tensor \<Rightarrow> error + tensor" where
  "convex_windows m flow =
     (case shape flow of
        [b, flow_channel, h, w] \<Rightarrow>
          and_then (unfold3 (mul_scalar (arith m) (upsample_factor m) flow)) (\<lambda>up_flow.
            view up_flow [b, flow_channel, 9, 1, 1, h, w])
      | _ \<Rightarrow> Inl ValueError)"

text \<open>Lines 72 to 75: the weighted sum over the nine taps, and the interleaving.\<close>

definition convex_combine :: "gmflow \<Rightarrow> tensor \<Rightarrow> tensor \<Rightarrow> tensor \<Rightarrow> error + tensor" where
  "convex_combine m flow msk up_flow =
     (case shape flow of
        [b, flow_channel, h, w] \<Rightarrow>
          and_then (binop (k_mul (arith m)) msk up_flow) (\<lambda>weighted.
          and_then (permute (sum_dim (arith m) 2 weighted) [0, 1, 4, 2, 5, 3]) (\<lambda>up_flow.
            view up_flow [b, flow_channel, nat (upsample_factor m) * h,
                          nat (upsample_factor m) * w]))
      | _ \<Rightarrow> Inl ValueError)"

definition upsample_flow ::
  "gmflow \<Rightarrow> tensor \<Rightarrow> tensor option \<Rightarrow> bool \<Rightarrow> int \<Rightarrow> error + tensor" where
  "upsample_flow m flow feature bilinear factor =
     (if bilinear then
        and_then (interpolate (arith m) flow factor) (\<lambda>up_flow.
          Inr (mul_scalar (arith m) factor up_flow))
      else
        and_then (convex_mask m flow feature) (\<lambda>msk.
        and_then (convex_windows m flow) (\<lambda>up_flow.
          convex_combine m flow msk up_flow)))"

section \<open>extract\_feature\<close>

text \<open>
  \<^verbatim>\<open>torch.stack((a, b), dim=1)\<close>: a new dimension of size 2 at position 1, for two
  tensors of one shape. The position is checked against the first tensor, then the
  shapes are compared.
\<close>

definition stack1 :: "tensor \<Rightarrow> tensor \<Rightarrow> error + tensor" where
  "stack1 a b =
     (if shape a = [] then Inl IndexError
      else if shape a \<noteq> shape b then Inl RuntimeError
      else Inr (tabulate (hd (shape a) # 2 # tl (shape a))
             (\<lambda>idx. if idx ! 1 = 0 then elem a (hd idx # drop 2 idx)
                    else elem b (hd idx # drop 2 idx))))"

text \<open>
  \<^verbatim>\<open>torch.chunk(t, chunks=2, dim=1)\<close>: pieces of size \<open>\<lceil>T / 2\<rceil>\<close> along dimension 1
  of size \<open>T\<close>: two pieces, but one when \<open>T = 1\<close>, and two empty ones when \<open>T = 0\<close>. A
  zero-dimensional tensor is refused, and a one-dimensional one has no dimension 1.
\<close>

definition narrow1 :: "nat \<Rightarrow> nat \<Rightarrow> tensor \<Rightarrow> tensor" where
  "narrow1 start len t =
     tabulate ((shape t)[1 := len]) (\<lambda>idx. elem t (idx[1 := idx ! 1 + start]))"

definition chunk2 :: "tensor \<Rightarrow> error + tensor list" where
  "chunk2 t =
     (if shape t = [] then Inl RuntimeError
      else if length (shape t) < 2 then Inl IndexError
      else let T = shape t ! 1; s = (T + 1) div 2 in
        if s < T \<or> T = 0 then Inr [narrow1 0 s t, narrow1 s (T - s) t]
        else Inr [narrow1 0 s t])"

text \<open>Indexing a Python list or tuple with a non-negative index.\<close>

definition list_get :: "'a list \<Rightarrow> nat \<Rightarrow> error + 'a" where
  "list_get xs i = (if i < length xs then Inr (xs ! i) else Inl IndexError)"

text \<open>
  Lines 43 to 52. Calling the default backbone \<^verbatim>\<open>None\<close> raises. Both returned
  lists have exactly one entry.
\<close>

definition extract_feature ::
  "gmflow \<Rightarrow> tensor \<Rightarrow> tensor \<Rightarrow> error + (tensor list \<times> tensor list)" where
  "extract_feature m img0 img1 =
     and_then (stack1 img0 img1) (\<lambda>stacked.
     and_then (permute stacked [0, 1, 3, 4, 2]) (\<lambda>concat.
     and_then (case backbone m of None \<Rightarrow> Inl TypeError | Some net \<Rightarrow> net concat)
       (\<lambda>features.
     and_then (chunk2 features) (\<lambda>chunks.
     and_then (list_get chunks 0) (\<lambda>chunk0.
     and_then (list_get chunks 1) (\<lambda>chunk1.
       Inr ([chunk0], [chunk1])))))))"

section \<open>forward\_image\<close>

text \<open>
  Line 97: \<^verbatim>\<open>assert len(a) == len(b) == len(c) == self.num_scales\<close>. The lists
  default to \<^verbatim>\<open>None\<close>, of which \<^verbatim>\<open>len\<close> raises; the chained comparison stops at
  its first false link.
\<close>

definition check_lists ::
  "gmflow \<Rightarrow> int list option \<Rightarrow> int list option \<Rightarrow> int list option \<Rightarrow>
   error + (int list \<times> int list \<times> int list)" where
  "check_lists m attn_splits_list corr_radius_list prop_radius_list =
     (case attn_splits_list of
        None \<Rightarrow> Inl TypeError
      | Some attn \<Rightarrow>
          (case corr_radius_list of
             None \<Rightarrow> Inl TypeError
           | Some corr \<Rightarrow>
               if length attn \<noteq> length corr then Inl AssertionError
               else (case prop_radius_list of
                  None \<Rightarrow> Inl TypeError
                | Some prop \<Rightarrow>
                    if length corr \<noteq> length prop then Inl AssertionError
                    else if int (length prop) \<noteq> num_scales m then Inl AssertionError
                    else Inr (attn, corr, prop))))"

text \<open>
  Line 108: \<^verbatim>\<open>self.upsample_factor * (2 ** (self.num_scales - 1 - scale_idx))\<close>. Inside
  the loop the exponent is not negative.
\<close>

definition scale_upsample_factor :: "gmflow \<Rightarrow> nat \<Rightarrow> int" where
  "scale_upsample_factor m scale_idx =
     upsample_factor m * 2 ^ nat (num_scales m - 1 - int scale_idx)"

text \<open>
  Lines 101 to 133 of the loop body: the features of the scale, the running flow
  brought to the scale's resolution, the warp, and the accumulation of the correlation
  prediction. \<^verbatim>\<open>detach()\<close> leaves the values as they are. The result is \<^verbatim>\<open>feature0\<close>,
  \<^verbatim>\<open>feature1\<close>, \<^verbatim>\<open>prop_radius\<close> and the accumulated \<^verbatim>\<open>flow\<close>.
\<close>

definition scale_flow ::
  "gmflow \<Rightarrow> externals \<Rightarrow> tensor list \<Rightarrow> tensor list \<Rightarrow> int list \<Rightarrow> int list \<Rightarrow> int list \<Rightarrow>
   bool \<Rightarrow> nat \<Rightarrow> tensor option \<Rightarrow> error + (tensor \<times> tensor \<times> int \<times> tensor)" where
  "scale_flow m ext feature0_list feature1_list attn_splits_list corr_radius_list
     prop_radius_list pred_bidir_flow scale_idx flow =
     and_then (list_get feature0_list scale_idx) (\<lambda>feature0.
     and_then (list_get feature1_list scale_idx) (\<lambda>feature1.
     and_then
       (if pred_bidir_flow \<and> scale_idx > 0
        then and_then (cat 0 feature0 feature1) (\<lambda>f0.
             and_then (cat 0 feature1 feature0) (\<lambda>f1. Inr (f0, f1)))
        else Inr (feature0, feature1)) (\<lambda>(feature0, feature1).
     and_then
       (if scale_idx > 0
        then (case flow of
                None \<Rightarrow> Inl AttributeError
              | Some f \<Rightarrow>
                  and_then (interpolate (arith m) f 2) (\<lambda>up.
                    Inr (Some (mul_scalar (arith m) 2 up))))
        else Inr flow) (\<lambda>flow.
     and_then
       (case flow of
          None \<Rightarrow> Inr feature1
        | Some f \<Rightarrow> flow_warp ext feature1 f) (\<lambda>feature1.
     and_then (list_get attn_splits_list scale_idx) (\<lambda>attn_splits.
     and_then (list_get corr_radius_list scale_idx) (\<lambda>corr_radius.
     and_then (list_get prop_radius_list scale_idx) (\<lambda>prop_radius.
     and_then
       (if corr_radius = - 1
        then global_correlation_softmax ext feature0 feature1 pred_bidir_flow
        else local_correlation_softmax ext feature0 feature1 corr_radius) (\<lambda>flow_pred.
     and_then
       (case flow of
          None \<Rightarrow> Inr flow_pred
        | Some f \<Rightarrow> binop (k_add (arith m)) f flow_pred) (\<lambda>flow.
       Inr (feature0, feature1, prop_radius, flow)))))))))))"

text \<open>
  The whole loop body, lines 101 to 161, on the state of the loop: the running flow
  (\<^verbatim>\<open>None\<close> before the first scale) and \<^verbatim>\<open>flow_preds\<close>.
\<close>

definition scale_step ::
  "gmflow \<Rightarrow> externals \<Rightarrow> tensor list \<Rightarrow> tensor list \<Rightarrow> int list \<Rightarrow> int list \<Rightarrow> int list \<Rightarrow>
   bool \<Rightarrow> nat \<Rightarrow> tensor option \<times> tensor list \<Rightarrow> error + (tensor option \<times> tensor list)" where
  "scale_step m ext feature0_list feature1_list attn_splits_list corr_radius_list
     prop_radius_list pred_bidir_flow scale_idx st =
     and_then
       (scale_flow m ext feature0_list feature1_list attn_splits_list corr_radius_list
          prop_radius_list pred_bidir_flow scale_idx (fst st))
       (\<lambda>(feature0, feature1, prop_radius, flow).
     and_then
       (if training m \<and> int scale_idx < num_scales m - 1
        then and_then (upsample_flow m flow None True (scale_upsample_factor m scale_idx))
               (\<lambda>flow_bilinear. Inr (snd st @ [flow_bilinear]))
        else Inr (snd st)) (\<lambda>flow_preds.
     and_then
       (if int scale_idx = num_scales m - 1
        then and_then (upsample_flow m flow (Some feature0) False 8)
               (\<lambda>flow_convex. Inr (flow_preds @ [flow_convex]))
        else Inr flow_preds) (\<lambda>flow_preds.
     and_then
       (if pred_bidir_flow \<and> scale_idx = 0 then cat 0 feature0 feature1
        else Inr feature0) (\<lambda>feature0.
     and_then (feature_flow_attn m feature0 flow (prop_radius > 0) prop_radius) (\<lambda>flow.
     and_then
       (if training m \<and> int scale_idx < num_scales m - 1
        then and_then
               (upsample_flow m flow (Some feature0) True (scale_upsample_factor m scale_idx))
               (\<lambda>flow_up. Inr (flow_preds @ [flow_up]))
        else Inr flow_preds) (\<lambda>flow_preds.
     and_then
       (if int scale_idx = num_scales m - 1
        then and_then (upsample_flow m flow (Some feature0) False 8)
               (\<lambda>flow_up. Inr (flow_preds @ [flow_up]))
        else Inr flow_preds) (\<lambda>flow_preds.
       Inr (Some flow, flow_preds))))))))"

text \<open>Line 99: the loop over \<^verbatim>\<open>range(self.num_scales)\<close>.\<close>

fun run_scales ::
  "gmflow \<Rightarrow> externals \<Rightarrow> tensor list \<Rightarrow> tensor list \<Rightarrow> int list \<Rightarrow> int list \<Rightarrow> int list \<Rightarrow>
   bool \<Rightarrow> nat list \<Rightarrow> tensor option \<times> tensor list \<Rightarrow> error + (tensor option \<times> tensor list)" where
  "run_scales m ext f0s f1s attn corr prop bidir [] st = Inr st"
| "run_scales m ext f0s f1s attn corr prop bidir (scale_idx # rest) st =
     and_then (scale_step m ext f0s f1s attn corr prop bidir scale_idx st)
       (run_scales m ext f0s f1s attn corr prop bidir rest)"

text \<open>
  Lines 79 to 165. The features are extracted before the lists are checked. The result
  is the dictionary \<^verbatim>\<open>{'flow_preds': flow_preds}\<close>.
\<close>

definition forward_image ::
  "gmflow \<Rightarrow> externals \<Rightarrow> tensor \<Rightarrow> tensor \<Rightarrow> int list option \<Rightarrow> int list option \<Rightarrow>
   int list option \<Rightarrow> bool \<Rightarrow> error + (string \<rightharpoonup> tensor list)" where
  "forward_image m ext img0 img1 attn_splits_list corr_radius_list prop_radius_list
     pred_bidir_flow =
     and_then (extract_feature m img0 img1) (\<lambda>(feature0_list, feature1_list).
     and_then (check_lists m attn_splits_list corr_radius_list prop_radius_list)
       (\<lambda>(attn, corr, prop).
     and_then
       (run_scales m ext feature0_list feature1_list attn corr prop pred_bidir_flow
          [0..<nat (num_scales m)] (None, []))
       (\<lambda>(flow, flow_preds). Inr [''flow_preds'' \<mapsto> flow_preds])))"

section \<open>Example inputs\<close>

text \<open>
  Kernels to run the functions above with: the ones that compute without rounding.
  The softmax is \<open>exp x\<^sub>i / \<Sum>\<^sub>j exp x\<^sub>j\<close>. The interpolation maps the corners of the output
  to the corners of the input; an output position reads the four input positions
  around its source coordinate and blends them linearly.
\<close>

definition exact_softmax :: "real list \<Rightarrow> nat \<Rightarrow> real" where
  "exact_softmax vs i = exp (vs ! i) / (\<Sum>v\<leftarrow>vs. exp v)"

definition source_coord :: "nat \<Rightarrow> nat \<Rightarrow> nat \<Rightarrow> real" where
  "source_coord n_in n_out k =
     (if n_out > 1 then real k * (real (n_in - 1) / real (n_out - 1)) else 0)"

definition exact_bilinear ::
  "nat \<Rightarrow> nat \<Rightarrow> nat \<Rightarrow> nat \<Rightarrow> (nat \<Rightarrow> nat \<Rightarrow> real) \<Rightarrow> nat \<Rightarrow> nat \<Rightarrow> real" where
  "exact_bilinear h w oh ow plane oy ox =
     (let sy = source_coord h oh oy; sx = source_coord w ow ox;
          y1 = nat \<lfloor>sy\<rfloor>; x1 = nat \<lfloor>sx\<rfloor>;
          y2 = (if y1 < h - 1 then y1 + 1 else y1);
          x2 = (if x1 < w - 1 then x1 + 1 else x1);
          ly = sy - real y1; lx = sx - real x1
      in (1 - ly) * ((1 - lx) * plane y1 x1 + lx * plane y1 x2)
         + ly * ((1 - lx) * plane y2 x1 + lx * plane y2 x2))"

definition exact_kernels :: kernels where
  "exact_kernels =
     \<lparr>k_scale = (\<lambda>c v. real_of_int c * v), k_add = (\<lambda>v v'. v + v'), k_mul = (\<lambda>v v'. v * v'),
      k_sum = sum_list, k_softmax = exact_softmax, k_bilinear = exact_bilinear,
      k_max_numel = 2 ^ 31 - 1\<rparr>"

text \<open>
  Small inputs on which the functions above are run: a model with upsample factor 2 and
  three feature channels whose upsampler returns zeros of the shape the convolutions
  give, a backbone returning a \<open>[1, 6, 1, 1]\<close> tensor, correlation functions returning a
  constant flow (of doubled batch when asked for both directions), a warp and a
  propagation layer that return their argument.
\<close>

definition sample_model :: gmflow where
  "sample_model =
     \<lparr>num_scales = 1, feature_channels = 3, upsample_factor = 2,
      attention_type = ''swin'', num_transformer_layers = 6, training = False,
      backbone = None,
      feature_flow_attn = (\<lambda>feature flow local_window_attn local_window_radius. Inr flow),
      upsampler = (\<lambda>x. Inr (tabulate [shape x ! 0, 36, shape x ! 2, shape x ! 3] (\<lambda>idx. 0))),
      arith = exact_kernels\<rparr>"

definition sample_flow :: tensor where
  "sample_flow = \<lparr>shape = [1, 2, 1, 1], elems = [3, 5]\<rparr>"

definition sample_feature :: tensor where
  "sample_feature = \<lparr>shape = [1, 3, 1, 1], elems = [0, 0, 0]\<rparr>"

definition sample_feature2 :: tensor where
  "sample_feature2 = tabulate [1, 3, 2, 2] (\<lambda>idx. 0)"

definition sample_image :: tensor where
  "sample_image = \<lparr>shape = [1, 3, 1, 1], elems = [0, 0, 0]\<rparr>"

definition sample_backbone :: "tensor \<Rightarrow> error + tensor" where
  "sample_backbone x = Inr (tabulate [1, 6, 1, 1] (\<lambda>idx. 0))"

definition sample_externals :: externals where
  "sample_externals =
     \<lparr>global_correlation_softmax = (\<lambda>feature0 feature1 pred_bidir_flow.
        Inr (tabulate [if pred_bidir_flow then 2 * (shape feature0 ! 0) else shape feature0 ! 0,
                       2, shape feature0 ! 2, shape feature0 ! 3] (\<lambda>idx. 1))),
      local_correlation_softmax = (\<lambda>feature0 feature1 radius.
        Inr (tabulate [shape feature0 ! 0, 2, shape feature0 ! 2, shape feature0 ! 3]
               (\<lambda>idx. 1))),
      flow_warp = (\<lambda>feature flow. Inr feature)\<rparr>"

definition single_scale_model :: gmflow where
  "single_scale_model = sample_model\<lparr>backbone := Some sample_backbone\<rparr>"

definition two_scale_model :: gmflow where
  "two_scale_model = sample_model\<lparr>num_scales := 2, training := True\<rparr>"






section \<open>Results and errors\<close>

lemma and_then_Inr [simp]: "and_then (Inr x) f = f x"
  by (simp add: and_then_def)

lemma and_then_Inl [simp]: "and_then (Inl e) f = Inl e"
  by (simp add: and_then_def)

lemma and_then_Inr_iff:
  "and_then r f = Inr y \<longleftrightarrow> (\<exists>x. r = Inr x \<and> f x = Inr y)"
  by (cases r) (simp_all add: and_then_def)

lemma and_then_if_append:
  "and_then (if c then and_then r (\<lambda>p. Inr (xs @ [p])) else Inr xs) f = Inr y \<longleftrightarrow>
   (\<exists>ys. (if c then \<exists>p. r = Inr p \<and> ys = xs @ [p] else ys = xs) \<and> f ys = Inr y)"
  by (auto simp: and_then_Inr_iff)

section \<open>Index arithmetic\<close>

lemma ravel_less:
  "valid_index sh idx \<Longrightarrow> ravel sh idx < prod_list sh"
  unfolding valid_index_def
proof (induction idx sh rule: list_all2_induct)
  case Nil
  then show ?case by simp
next
  case (Cons i js d ds)
  have "i * prod_list ds + ravel ds js < i * prod_list ds + prod_list ds"
    using Cons.IH by simp
  also have "\<dots> = Suc i * prod_list ds" by simp
  also have "\<dots> \<le> d * prod_list ds"
    using Cons.hyps(1) by (intro mult_le_mono1) simp
  finally show ?case by simp
qed

lemma unravel_ravel:
  "valid_index sh idx \<Longrightarrow> unravel sh (ravel sh idx) = idx"
  unfolding valid_index_def
proof (induction idx sh rule: list_all2_induct)
  case Nil
  then show ?case by simp
next
  case (Cons i js d ds)
  have r: "ravel ds js < prod_list ds"
    using Cons.hyps(2) ravel_less by (simp add: valid_index_def)
  then show ?case using Cons.IH by simp
qed

lemma elem_tabulate:
  "valid_index sh idx \<Longrightarrow> elem (tabulate sh f) idx = f idx"
  using ravel_less [of sh idx] unravel_ravel [of sh idx]
  by (simp add: elem_def tabulate_def)

lemma shape_tabulate: "shape (tabulate sh f) = sh"
  by (simp add: tabulate_def)

lemma length_elems_tabulate: "length (elems (tabulate sh f)) = prod_list sh"
  by (simp add: tabulate_def)


lemma shape_view: "view t sh = Inr t' \<Longrightarrow> shape t' = sh"
  by (auto simp: view_def split: if_splits)

section \<open>Tensor operations\<close>

lemma shape_mul_scalar: "shape (mul_scalar k c t) = shape t"
  by (simp add: mul_scalar_def)


lemma shape_softmax: "shape (softmax k ax t) = shape t"
  by (simp add: softmax_def shape_tabulate)

lemma bcast_dims_mask:
  "bcast_dims [b, 1, 9, K, K, h, w] [b, c, 9, 1, 1, h, w] = Some [b, c, 9, K, K, h, w]"
  by simp

lemma bcast_dims_same: "bcast_dims sh sh = Some sh"
  by (induction sh) simp_all

lemma bcast_index_valid:
  "valid_index sh idx \<Longrightarrow> bcast_index sh idx = idx"
  unfolding valid_index_def
proof (induction idx sh rule: list_all2_induct)
  case Nil
  then show ?case by (simp add: bcast_index_def)
next
  case (Cons i js d ds)
  then have "length js = length ds"
    by (simp add: list_all2_lengthD)
  then show ?case
    using Cons by (auto simp: bcast_index_def)
qed

lemma binop_mask_windows:
  assumes "shape msk = [b, 1, 9, K, K, h, w]" and "shape win = [b, c, 9, 1, 1, h, w]"
  shows "binop f msk win =
         Inr (tabulate [b, c, 9, K, K, h, w]
           (\<lambda>idx. f (elem msk (bcast_index [b, 1, 9, K, K, h, w] idx))
                    (elem win (bcast_index [b, c, 9, 1, 1, h, w] idx))))"
proof -
  have n: "max (length [b, 1, 9, K, K, h, w]) (length [b, c, 9, 1, 1, h, w]) = 7"
    by simp
  have p1: "lpad 7 [b, 1, 9, K, K, h, w] = [b, 1, 9, K, K, h, w]"
    and p2: "lpad 7 [b, c, 9, 1, 1, h, w] = [b, c, 9, 1, 1, h, w]"
    by (simp_all add: lpad_def)
  show ?thesis
    unfolding binop_def Let_def n assms p1 p2 bcast_dims_mask by simp
qed

lemma binop_same_shape:
  assumes "shape a = shape b"
  shows "binop f a b =
         Inr (tabulate (shape a) (\<lambda>idx. f (elem a (bcast_index (shape a) idx))
                                          (elem b (bcast_index (shape a) idx))))"
  by (simp add: binop_def lpad_def assms [symmetric] bcast_dims_same)

lemma binop_same_shape_elem:
  assumes "binop f a b = Inr r" and "shape a = shape b"
  shows "shape r = shape a"
    and "valid_index (shape a) idx \<Longrightarrow> elem r idx = f (elem a idx) (elem b idx)"
proof -
  have r: "r = tabulate (shape a) (\<lambda>idx. f (elem a (bcast_index (shape a) idx))
                                          (elem b (bcast_index (shape a) idx)))"
    using assms by (simp add: binop_same_shape)
  show "shape r = shape a"
    by (simp add: r shape_tabulate)
  show "elem r idx = f (elem a idx) (elem b idx)" if "valid_index (shape a) idx"
    using that by (simp add: r elem_tabulate bcast_index_valid)
qed

lemma permute_interleave_Inr:
  assumes "shape t = [b, c, K, K, h, w]"
  shows "\<exists>perm. permute t [0, 1, 4, 2, 5, 3] = Inr perm \<and>
           length (elems perm) = b * c * h * K * w * K"
proof -
  let ?p = "[0, 1, 4, 2, 5, 3] :: nat list"
  have len: "length ?p = 6"
    by simp
  have "permute t ?p = Inr (tabulate (map (\<lambda>k. shape t ! k) ?p)
                (\<lambda>idx. elem t (map (\<lambda>k. idx ! position ?p k) [0..<6])))"
    unfolding permute_def len by (simp add: assms)
  moreover have "map (\<lambda>k. shape t ! k) ?p = [b, c, h, K, w, K]"
    by (simp add: assms)
  ultimately show ?thesis
    by (simp add: length_elems_tabulate)
qed

lemma cat_batch_mismatch:
  assumes "shape a = (2 * B) # 2 # sa" and "shape b = B # sb" and "0 < B"
  shows "cat 1 a b = Inl RuntimeError"
proof -
  have "(shape a)[1 := 0] \<noteq> (shape b)[1 := 0]"
    using assms by (cases sb) auto
  then show ?thesis
    using assms by (simp add: cat_def)
qed

lemma cat_returns:
  assumes "length (shape a) = length (shape b)" and "ax < length (shape a)"
    and "(shape a)[ax := 0] = (shape b)[ax := 0]" and "shape a \<noteq> [0]" and "shape b \<noteq> [0]"
  shows "\<exists>t. cat ax a b = Inr t \<and> shape t = (shape a)[ax := shape a ! ax + shape b ! ax]"
proof -
  have "shape a \<noteq> []" "shape b \<noteq> []"
    using assms(1,2) by auto
  then show ?thesis
    using assms by (simp add: cat_def shape_tabulate)
qed

lemma cat_Inr_shape:
  assumes "cat ax a b = Inr t" and "shape a \<noteq> [0]" and "shape b \<noteq> [0]"
  shows "shape t = (shape a)[ax := shape a ! ax + shape b ! ax]"
  using assms by (auto simp: cat_def shape_tabulate split: if_splits)

lemma interpolate_Inr:
  assumes "interpolate k t f = Inr up" and "shape t = [b, c, h, w]"
  shows "up = tabulate [b, c, h * nat f, w * nat f]
                 (\<lambda>idx. k_bilinear k h w (h * nat f) (w * nat f)
                          (\<lambda>y x. elem t [idx ! 0, idx ! 1, y, x]) (idx ! 2) (idx ! 3))"
    and "1 \<le> f" and "0 < c" and "0 < h" and "0 < w"
  using assms by (auto simp: interpolate_def split: if_splits)

lemma interpolate_returns:
  assumes "shape t = [b, c, h, w]" and "1 \<le> f" and "0 < c" and "0 < h" and "0 < w"
    and "fits k [b, c, h, w]" and "fits k [b, c, h * nat f, w * nat f]"
  shows "\<exists>up. interpolate k t f = Inr up"
  using assms by (simp add: interpolate_def)



section \<open>The steps of convex upsampling\<close>

lemma upsample_flow_convex_Inr:
  assumes "upsample_flow m flow feature False factor = Inr out"
  obtains msk win where
    "convex_mask m flow feature = Inr msk" "convex_windows m flow = Inr win"
    "convex_combine m flow msk win = Inr out"
  using assms by (auto simp: upsample_flow_def and_then_Inr_iff)

lemma upsample_flow_convex_returns:
  assumes shape: "shape flow = [b, c, h, w]" and pos: "0 < c" "0 < h" "0 < w"
    and joined: "cat 1 flow feat = Inr joined" and raw: "upsampler m joined = Inr raw"
    and count: "length (elems raw) = b * 9 * K * K * h * w"
    and K: "0 \<le> upsample_factor m" "K = nat (upsample_factor m)"
  shows "\<exists>out. upsample_flow m flow (Some feat) False factor = Inr out"
proof -
  obtain mv where mv: "view raw [b, 1, 9, K, K, h, w] = Inr mv"
    using count by (simp add: view_def)
  have msk: "convex_mask m flow (Some feat) = Inr (softmax (arith m) 2 mv)"
    using mv K joined raw by (simp add: convex_mask_def shape)
  have smsk: "shape (softmax (arith m) 2 mv) = [b, 1, 9, K, K, h, w]"
    using mv by (simp add: shape_softmax shape_view)
  obtain unf where unf: "unfold3 (mul_scalar (arith m) (upsample_factor m) flow) = Inr unf"
    and lunf: "length (elems unf) = b * (c * 9) * (h * w)"
    using pos by (simp add: unfold3_def shape_mul_scalar shape length_elems_tabulate)
  obtain win where vwin: "view unf [b, c, 9, 1, 1, h, w] = Inr win"
    using lunf by (simp add: view_def)
  have win: "convex_windows m flow = Inr win"
    using unf vwin by (simp add: convex_windows_def shape)
  have swin: "shape win = [b, c, 9, 1, 1, h, w]"
    using vwin by (rule shape_view)
  let ?weighted = "tabulate [b, c, 9, K, K, h, w]
           (\<lambda>idx. k_mul (arith m)
                    (elem (softmax (arith m) 2 mv) (bcast_index [b, 1, 9, K, K, h, w] idx))
                    (elem win (bcast_index [b, c, 9, 1, 1, h, w] idx)))"
  have "shape (sum_dim (arith m) 2 ?weighted) = [b, c, K, K, h, w]"
    by (simp add: sum_dim_def shape_tabulate)
  then obtain perm where
    perm: "permute (sum_dim (arith m) 2 ?weighted) [0, 1, 4, 2, 5, 3] = Inr perm"
    and lperm: "length (elems perm) = b * c * h * K * w * K"
    using permute_interleave_Inr by blast
  obtain out where out: "view perm [b, c, K * h, K * w] = Inr out"
    using lperm by (simp add: view_def)
  have "convex_combine m flow (softmax (arith m) 2 mv) win = Inr out"
    unfolding convex_combine_def shape list.case binop_mask_windows [OF smsk swin] and_then_Inr
      perm K(2) [symmetric] by (rule out)
  then show ?thesis
    by (simp add: upsample_flow_def msk win)
qed

lemma upsample_flow_bilinear_returns:
  assumes "shape flow = [b, c, h, w]" and "0 < c" "0 < h" "0 < w" "1 \<le> f"
    and "fits (arith m) [b, c, h, w]" and "fits (arith m) [b, c, h * nat f, w * nat f]"
  shows "\<exists>out. upsample_flow m flow feature True f = Inr out \<and>
           shape out = [b, c, h * nat f, w * nat f]"
proof -
  from interpolate_returns [OF assms(1,5,2,3,4,6,7)] obtain up where
    up: "interpolate (arith m) flow f = Inr up"
    by blast
  have "shape up = [b, c, h * nat f, w * nat f]"
    using interpolate_Inr(1) [OF up assms(1)] by (simp add: shape_tabulate)
  then show ?thesis
    using up by (simp add: upsample_flow_def shape_mul_scalar)
qed

section \<open>The loop body\<close>

lemma scale_step_Inr:
  assumes "scale_step m ext f0s f1s attn corr prop bidir s st = Inr st'"
  obtains feature0 feature1 r acc pre mid feature0' flow' post where
    "scale_flow m ext f0s f1s attn corr prop bidir s (fst st) = Inr (feature0, feature1, r, acc)"
    "if training m \<and> int s < num_scales m - 1
     then \<exists>p. upsample_flow m acc None True (scale_upsample_factor m s) = Inr p \<and>
              pre = snd st @ [p]
     else pre = snd st"
    "if int s = num_scales m - 1
     then \<exists>p. upsample_flow m acc (Some feature0) False 8 = Inr p \<and> mid = pre @ [p]
     else mid = pre"
    "if bidir \<and> s = 0 then cat 0 feature0 feature1 = Inr feature0' else feature0' = feature0"
    "feature_flow_attn m feature0' acc (0 < r) r = Inr flow'"
    "if training m \<and> int s < num_scales m - 1
     then \<exists>p. upsample_flow m flow' (Some feature0') True (scale_upsample_factor m s) = Inr p \<and>
              post = mid @ [p]
     else post = mid"
    "if int s = num_scales m - 1
     then \<exists>p. upsample_flow m flow' (Some feature0') False 8 = Inr p \<and>
              st' = (Some flow', post @ [p])
     else st' = (Some flow', post)"
proof -
  from assms obtain feature0 feature1 r acc where
    sf: "scale_flow m ext f0s f1s attn corr prop bidir s (fst st) = Inr (feature0, feature1, r, acc)"
    and rest: "and_then
       (if training m \<and> int s < num_scales m - 1
        then and_then (upsample_flow m acc None True (scale_upsample_factor m s))
               (\<lambda>flow_bilinear. Inr (snd st @ [flow_bilinear]))
        else Inr (snd st)) (\<lambda>flow_preds.
     and_then
       (if int s = num_scales m - 1
        then and_then (upsample_flow m acc (Some feature0) False 8)
               (\<lambda>flow_convex. Inr (flow_preds @ [flow_convex]))
        else Inr flow_preds) (\<lambda>flow_preds.
     and_then
       (if bidir \<and> s = 0 then cat 0 feature0 feature1
        else Inr feature0) (\<lambda>feature0.
     and_then (feature_flow_attn m feature0 acc (r > 0) r) (\<lambda>flow.
     and_then
       (if training m \<and> int s < num_scales m - 1
        then and_then
               (upsample_flow m flow (Some feature0) True (scale_upsample_factor m s))
               (\<lambda>flow_up. Inr (flow_preds @ [flow_up]))
        else Inr flow_preds) (\<lambda>flow_preds.
     and_then
       (if int s = num_scales m - 1
        then and_then (upsample_flow m flow (Some feature0) False 8)
               (\<lambda>flow_up. Inr (flow_preds @ [flow_up]))
        else Inr flow_preds) (\<lambda>flow_preds.
       Inr (Some flow, flow_preds))))))) = Inr st'"
    unfolding scale_step_def and_then_Inr_iff [of "scale_flow _ _ _ _ _ _ _ _ _ _"]
    by (auto split: prod.splits)
  from rest obtain pre mid feature0' flow' post where
    "if training m \<and> int s < num_scales m - 1
     then \<exists>p. upsample_flow m acc None True (scale_upsample_factor m s) = Inr p \<and>
              pre = snd st @ [p]
     else pre = snd st"
    "if int s = num_scales m - 1
     then \<exists>p. upsample_flow m acc (Some feature0) False 8 = Inr p \<and> mid = pre @ [p]
     else mid = pre"
    "if bidir \<and> s = 0 then cat 0 feature0 feature1 = Inr feature0' else feature0' = feature0"
    "feature_flow_attn m feature0' acc (0 < r) r = Inr flow'"
    "if training m \<and> int s < num_scales m - 1
     then \<exists>p. upsample_flow m flow' (Some feature0') True (scale_upsample_factor m s) = Inr p \<and>
              post = mid @ [p]
     else post = mid"
    "if int s = num_scales m - 1
     then \<exists>p. upsample_flow m flow' (Some feature0') False 8 = Inr p \<and>
              st' = (Some flow', post @ [p])
     else st' = (Some flow', post)"
    unfolding and_then_if_append
    by (auto simp: and_then_Inr_iff split: if_splits)
  then show ?thesis
    using sf that by blast
qed

lemma scale_step_returns:
  assumes "scale_flow m ext f0s f1s attn corr radii bidir s (fst st) =
             Inr (feata, featb, r, acc)"
    and "if training m \<and> int s < num_scales m - 1
         then upsample_flow m acc None True (scale_upsample_factor m s) = Inr pa \<and>
              pre = snd st @ [pa]
         else pre = snd st"
    and "if int s = num_scales m - 1
         then upsample_flow m acc (Some feata) False 8 = Inr pb \<and> mid = pre @ [pb]
         else mid = pre"
    and "if bidir \<and> s = 0 then cat 0 feata featb = Inr featp else featp = feata"
    and "feature_flow_attn m featp acc (0 < r) r = Inr flow'"
    and "if training m \<and> int s < num_scales m - 1
         then upsample_flow m flow' (Some featp) True (scale_upsample_factor m s) = Inr pc \<and>
              post = mid @ [pc]
         else post = mid"
    and "if int s = num_scales m - 1
         then upsample_flow m flow' (Some featp) False 8 = Inr pd \<and> final = post @ [pd]
         else final = post"
  shows "scale_step m ext f0s f1s attn corr radii bidir s st = Inr (Some flow', final)"
  using assms by (auto simp: scale_step_def split: if_splits)

lemma scale_step_preds:
  assumes "scale_step m ext f0s f1s attn corr prop bidir s st = Inr st'"
  shows "\<exists>new. snd st' = snd st @ new \<and>
           length new = (if int s = num_scales m - 1 then 2
                         else if training m \<and> int s < num_scales m - 1 then 2 else 0)"
  using assms by (elim scale_step_Inr) (auto split: if_splits)

lemma run_scales_preds:
  assumes "run_scales m ext f0s f1s attn corr prop bidir idxs st = Inr st'"
  shows "length (snd st') = length (snd st) +
           (\<Sum>s\<leftarrow>idxs. if int s = num_scales m - 1 then 2
                        else if training m \<and> int s < num_scales m - 1 then 2 else 0)"
  using assms
proof (induction idxs arbitrary: st)
  case Nil
  then show ?case by simp
next
  case (Cons s idxs)
  from Cons.prems obtain st1 where
    step: "scale_step m ext f0s f1s attn corr prop bidir s st = Inr st1"
    and rest: "run_scales m ext f0s f1s attn corr prop bidir idxs st1 = Inr st'"
    by (auto simp: and_then_Inr_iff)
  from scale_step_preds [OF step] Cons.IH [OF rest] show ?case
    by auto
qed

lemma count_all_scales:
  "(\<Sum>s\<leftarrow>[0..<n]. if int s = int n - 1 then 2
                        else if tr \<and> int s < int n - 1 then 2 else 0) =
   (if n = 0 then 0 else if tr then 2 * n else (2::nat))"
proof (cases n)
  case 0
  then show ?thesis by simp
next
  case (Suc k)
  let ?f = "\<lambda>s. if int s = int n - 1 then 2
                else if tr \<and> int s < int n - 1 then 2 else (0::nat)"
  have eq: "map ?f [0..<k] = map (\<lambda>s. if tr then 2 else 0) [0..<k]"
    using Suc by (intro map_cong) auto
  have "sum_list (map (\<lambda>s. if tr then 2 else (0::nat)) [0..<k]) = (if tr then 2 * k else 0)"
    by (simp add: sum_list_triv)
  then have "sum_list (map ?f [0..<k]) = (if tr then 2 * k else 0)"
    by (simp only: eq)
  moreover have "?f k = 2"
    using Suc by simp
  ultimately have "sum_list (map ?f [0..<Suc k]) = (if tr then 2 * Suc k else 2)"
    by simp
  then show ?thesis
    unfolding Suc [symmetric] using Suc by simp
qed


lemma scale_flow_first_returns:
  assumes "list_get f0s 0 = Inr feature0" and "list_get f1s 0 = Inr feature1"
    and "list_get attn 0 = Inr a" and "list_get corr 0 = Inr c" and "list_get radii 0 = Inr r"
    and "(if c = - 1 then global_correlation_softmax ext feature0 feature1 bidir
          else local_correlation_softmax ext feature0 feature1 c) = Inr pred"
  shows "scale_flow m ext f0s f1s attn corr radii bidir 0 None = Inr (feature0, feature1, r, pred)"
  using assms by (simp add: scale_flow_def split: if_splits)


lemma scale_flow_later_returns:
  assumes "0 < s" and "\<not> bidir" and "interpolate (arith m) prev 2 = Inr up"
    and "list_get f0s s = Inr feata" and "list_get f1s s = Inr featb"
    and "flow_warp ext featb (mul_scalar (arith m) 2 up) = Inr warped"
    and "list_get attn s = Inr a" and "list_get corr s = Inr c" and "list_get radii s = Inr r"
    and "(if c = - 1 then global_correlation_softmax ext feata warped bidir
          else local_correlation_softmax ext feata warped c) = Inr pred"
    and "binop (k_add (arith m)) (mul_scalar (arith m) 2 up) pred = Inr acc"
  shows "scale_flow m ext f0s f1s attn corr radii bidir s (Some prev) = Inr (feata, warped, r, acc)"
  using assms by (simp add: scale_flow_def split: if_splits)

lemma scale_flow_index:
  assumes "scale_flow m ext f0s f1s attn corr radii bidir s flow = Inr x"
  shows "s < length f0s"
proof (rule ccontr)
  assume "\<not> s < length f0s"
  then have "list_get f0s s = Inl IndexError"
    by (simp add: list_get_def)
  then have "scale_flow m ext f0s f1s attn corr radii bidir s flow = Inl IndexError"
    by (simp add: scale_flow_def)
  with assms show False
    by simp
qed

lemma scale_upsample_factor_closed:
  assumes "int s < num_scales m"
  shows "scale_upsample_factor m s = upsample_factor m * 2 ^ (nat (num_scales m) - 1 - s)"
proof -
  have "nat (num_scales m - 1 - int s) = nat (num_scales m) - 1 - s"
    using assms by linarith
  then show ?thesis
    by (simp add: scale_upsample_factor_def)
qed

lemma bidir_first_step_fails:
  assumes N: "num_scales m = 1"
    and feats: "list_get f0s 0 = Inr feature0" "list_get f1s 0 = Inr feature1"
    and lists: "list_get attn 0 = Inr a" "list_get corr 0 = Inr (- 1)" "list_get radii 0 = Inr r"
    and contract: "global_correlation_softmax ext feature0 feature1 True = Inr flow_pred"
      "shape flow_pred = [2 * B, 2, h, w]"
    and batch: "shape feature0 = B # rest" "0 < B"
  shows "upsample_flow m flow_pred (Some feature0) False 8 = Inl RuntimeError"
    and "scale_step m ext f0s f1s attn corr radii True 0 (None, ps) = Inl RuntimeError"
proof -
  have c: "cat 1 flow_pred feature0 = Inl RuntimeError"
    by (rule cat_batch_mismatch [OF contract(2) batch])
  then show u: "upsample_flow m flow_pred (Some feature0) False 8 = Inl RuntimeError"
    by (simp add: upsample_flow_def convex_mask_def)
  have sf: "scale_flow m ext f0s f1s attn corr radii True 0 None =
      Inr (feature0, feature1, r, flow_pred)"
    by (rule scale_flow_first_returns [OF feats lists]) (simp add: contract)
  show "scale_step m ext f0s f1s attn corr radii True 0 (None, ps) = Inl RuntimeError"
    using sf u N by (simp add: scale_step_def)
qed

lemma forward_image_Inr:
  assumes "forward_image m ext img0 img1 a c p bidir = Inr d"
  obtains f0s f1s attn corr radii flow preds where
    "extract_feature m img0 img1 = Inr (f0s, f1s)"
    "check_lists m a c p = Inr (attn, corr, radii)"
    "run_scales m ext f0s f1s attn corr radii bidir [0..<nat (num_scales m)] (None, []) =
       Inr (flow, preds)"
    "d = [''flow_preds'' \<mapsto> preds]"
  using assms
  by (auto simp: forward_image_def and_then_Inr_iff split: prod.splits)

lemma extract_feature_Inr:
  assumes "extract_feature m img0 img1 = Inr (f0s, f1s)"
  shows "length f0s = 1" and "length f1s = 1"
  using assms by (auto simp: extract_feature_def and_then_Inr_iff)

lemma forward_image_multi_scale_fails:
  assumes "2 \<le> num_scales m"
  shows "forward_image m ext img0 img1 a c p bidir \<noteq> Inr d"
proof
  assume "forward_image m ext img0 img1 a c p bidir = Inr d"
  then obtain f0s f1s attn corr radii flow preds where
    ex: "extract_feature m img0 img1 = Inr (f0s, f1s)"
    and run: "run_scales m ext f0s f1s attn corr radii bidir [0..<nat (num_scales m)] (None, []) =
       Inr (flow, preds)"
    by (rule forward_image_Inr)
  from assms have "2 \<le> nat (num_scales m)"
    by simp
  then obtain j where "nat (num_scales m) = 2 + j"
    using le_Suc_ex by blast
  then have k: "nat (num_scales m) = Suc (Suc j)"
    by simp
  have idx: "[0..<nat (num_scales m)] = 0 # Suc 0 # [Suc (Suc 0)..<Suc (Suc j)]"
    unfolding k by (simp add: upt_conv_Cons)
  from run obtain st1 st2 where
    "scale_step m ext f0s f1s attn corr radii bidir (Suc 0) st1 = Inr st2"
    unfolding idx by (auto simp: and_then_Inr_iff)
  then obtain x where "scale_flow m ext f0s f1s attn corr radii bidir (Suc 0) (fst st1) = Inr x"
    by (rule scale_step_Inr)
  then have "Suc 0 < length f0s"
    by (rule scale_flow_index)
  then show False
    using extract_feature_Inr(1) [OF ex] by simp
qed

section \<open>Runs on the example inputs\<close>


lemma sample_convex_returns:
  assumes "upsampler m = upsampler sample_model" and "upsample_factor m = 2"
    and "shape flow = [b, 2, h, w]" and "shape feat = [b, 3, h, w]" and "0 < h" and "0 < w"
    and "0 < b"
  shows "\<exists>out. upsample_flow m flow (Some feat) False f = Inr out \<and>
           shape out = [b, 2, 2 * h, 2 * w]"
proof -
  obtain joined where c: "cat 1 flow feat = Inr joined"
    and sj: "shape joined = [b, 5, h, w]"
    using cat_returns [of flow feat 1] assms by auto
  obtain raw where raw: "upsampler m joined = Inr raw"
    and lraw: "length (elems raw) = b * 9 * 2 * 2 * h * w"
    by (simp add: assms(1) sample_model_def sj length_elems_tabulate)
  have K: "0 \<le> upsample_factor m" "2 = nat (upsample_factor m)"
    by (simp_all add: assms(2))
  have "\<exists>out. upsample_flow m flow (Some feat) False f = Inr out"
    by (rule upsample_flow_convex_returns [OF assms(3) _ assms(5,6) c raw lraw K]) simp
  then obtain out where out: "upsample_flow m flow (Some feat) False f = Inr out"
    by blast
  moreover have "shape out = [b, 2, 2 * h, 2 * w]"
  proof -
    from out obtain msk win where "convex_combine m flow msk win = Inr out"
      by (rule upsample_flow_convex_Inr)
    then show ?thesis
      using assms(2,3) by (auto simp: convex_combine_def and_then_Inr_iff shape_view)
  qed
  ultimately show ?thesis
    by blast
qed

lemma sample_extract:
  "\<exists>c0 c1. extract_feature single_scale_model sample_image sample_image = Inr ([c0], [c1]) \<and>
     shape c0 = [1, 3, 1, 1] \<and> shape c1 = [1, 3, 1, 1]"
proof -
  obtain stacked where st: "stack1 sample_image sample_image = Inr stacked"
    and ss: "shape stacked = [1, 2, 3, 1, 1]"
    by (simp add: stack1_def sample_image_def shape_tabulate)
  obtain permuted where pm: "permute stacked [0, 1, 3, 4, 2] = Inr permuted"
    by (simp add: permute_def ss)
  let ?features = "tabulate [1, 6, 1, 1] (\<lambda>idx. 0)"
  have bb: "backbone single_scale_model = Some sample_backbone"
    by (simp add: single_scale_model_def)
  have ch: "chunk2 ?features = Inr [narrow1 0 3 ?features, narrow1 3 3 ?features]"
    by (simp add: chunk2_def shape_tabulate Let_def)
  have "extract_feature single_scale_model sample_image sample_image =
      Inr ([narrow1 0 3 ?features], [narrow1 3 3 ?features])"
    using st pm ch by (simp add: extract_feature_def bb sample_backbone_def list_get_def)
  moreover have "shape (narrow1 0 3 ?features) = [1, 3, 1, 1]"
    "shape (narrow1 3 3 ?features) = [1, 3, 1, 1]"
    by (simp_all add: narrow1_def shape_tabulate)
  ultimately show ?thesis
    by blast
qed

lemma sample_extract_fails:
  "extract_feature sample_model sample_image sample_image = Inl TypeError"
proof -
  obtain stacked where st: "stack1 sample_image sample_image = Inr stacked"
    and ss: "shape stacked = [1, 2, 3, 1, 1]"
    by (simp add: stack1_def sample_image_def shape_tabulate)
  obtain permuted where pm: "permute stacked [0, 1, 3, 4, 2] = Inr permuted"
    by (simp add: permute_def ss)
  show ?thesis
    using st pm by (simp add: extract_feature_def sample_model_def)
qed

lemma single_scale_step:
  assumes "shape c0 = [1, 3, 1, 1]"
  shows "\<exists>flow p q. scale_step single_scale_model sample_externals [c0] [c1] [2] [- 1] [0]
           False 0 (None, []) = Inr (Some flow, [p, q]) \<and>
           shape p = [1, 2, 2, 2] \<and> shape q = [1, 2, 2, 2]"
proof -
  let ?m = single_scale_model
  let ?pred = "tabulate [1, 2, 1, 1] (\<lambda>idx. 1)"
  have m: "upsampler ?m = upsampler sample_model" "upsample_factor ?m = 2"
    "num_scales ?m = 1" "\<not> training ?m"
    by (simp_all add: single_scale_model_def sample_model_def)
  have g: "global_correlation_softmax sample_externals c0 c1 False = Inr ?pred"
    by (simp add: sample_externals_def assms)
  have sf: "scale_flow ?m sample_externals [c0] [c1] [2] [- 1] [0] False 0 (fst (None, [])) =
      Inr (c0, c1, 0, ?pred)"
    unfolding fst_conv
    by (rule scale_flow_first_returns [where c = "- 1"]) (simp_all add: list_get_def g)
  obtain p where p: "upsample_flow ?m ?pred (Some c0) False 8 = Inr p"
    and sp: "shape p = [1, 2, 2, 2]"
    using sample_convex_returns [OF m(1,2), of ?pred 1 1 1 c0 8]
    by (auto simp: shape_tabulate assms)
  have attn: "feature_flow_attn ?m c0 ?pred (0 < 0) 0 = Inr ?pred"
    by (simp add: single_scale_model_def sample_model_def)
  have "scale_step ?m sample_externals [c0] [c1] [2] [- 1] [0] False 0 (None, []) =
      Inr (Some ?pred, [p, p])"
    by (rule scale_step_returns [OF sf _ _ _ attn, where pre = "[]" and mid = "[p]"
          and post = "[p]" and pb = p and pd = p])
       (use m p in simp_all)
  then show ?thesis
    using sp by blast
qed

lemma single_scale_run:
  "\<exists>p q. forward_image single_scale_model sample_externals sample_image sample_image
       (Some [2]) (Some [- 1]) (Some [0]) False = Inr [''flow_preds'' \<mapsto> [p, q]] \<and>
     shape p = [1, 2, 2, 2] \<and> shape q = [1, 2, 2, 2]"
proof -
  from sample_extract obtain c0 c1 where
    ex: "extract_feature single_scale_model sample_image sample_image = Inr ([c0], [c1])"
    and s0: "shape c0 = [1, 3, 1, 1]"
    by blast
  from single_scale_step [OF s0, of c1] obtain flow p q where
    step: "scale_step single_scale_model sample_externals [c0] [c1] [2] [- 1] [0]
           False 0 (None, []) = Inr (Some flow, [p, q])"
    and sh: "shape p = [1, 2, 2, 2]" "shape q = [1, 2, 2, 2]"
    by blast
  have n: "num_scales single_scale_model = 1"
    by (simp add: single_scale_model_def sample_model_def)
  have ck: "check_lists single_scale_model (Some [2]) (Some [- 1]) (Some [0]) =
      Inr ([2], [- 1], [0])"
    by (simp add: check_lists_def n)
  have "forward_image single_scale_model sample_externals sample_image sample_image
       (Some [2]) (Some [- 1]) (Some [0]) False = Inr [''flow_preds'' \<mapsto> [p, q]]"
    using step by (simp add: forward_image_def ex ck n)
  then show ?thesis
    using sh by blast
qed

lemma two_scale_run:
  fixes F :: "tensor list" and A C R :: "int list"
  defines "F \<equiv> [sample_feature, sample_feature2]"
    and "A \<equiv> [2, 8]" and "C \<equiv> [- 1, 1]" and "R \<equiv> [0, 1]"
  shows "\<exists>pred0 p1 p3 up pred1 acc p2 p4.
     scale_flow two_scale_model sample_externals F F A C R False 0 None =
       Inr (sample_feature, sample_feature, 0, pred0) \<and>
     scale_step two_scale_model sample_externals F F A C R False 0 (None, []) =
       Inr (Some pred0, [p1, p3]) \<and>
     upsample_flow two_scale_model pred0 None True 4 = Inr p1 \<and>
     shape p1 = [1, 2, 4, 4] \<and>
     interpolate (arith two_scale_model) pred0 2 = Inr up \<and> shape up = [1, 2, 2, 2] \<and>
     local_correlation_softmax sample_externals sample_feature2 sample_feature2 1 = Inr pred1 \<and>
     shape pred1 = [1, 2, 2, 2] \<and>
     scale_flow two_scale_model sample_externals F F A C R False 1 (Some pred0) =
       Inr (sample_feature2, sample_feature2, 1, acc) \<and>
     scale_step two_scale_model sample_externals F F A C R False 1 (Some pred0, [p1, p3]) =
       Inr (Some acc, [p1, p3, p2, p4]) \<and>
     run_scales two_scale_model sample_externals F F A C R False
       [0..<nat (num_scales two_scale_model)] (None, []) = Inr (Some acc, [p1, p3, p2, p4])"
proof -
  let ?m = two_scale_model and ?e = sample_externals
  have m: "upsampler ?m = upsampler sample_model" "upsample_factor ?m = 2"
    "num_scales ?m = 2" "training ?m"
    by (simp_all add: two_scale_model_def sample_model_def)
  have lim: "max_numel (arith ?m) = 2 ^ 31 - 1"
    by (simp add: max_numel_def two_scale_model_def sample_model_def exact_kernels_def)
  have attn: "feature_flow_attn ?m feature flow lw r = Inr flow" for feature flow lw r
    by (simp add: two_scale_model_def sample_model_def)
  have f0: "scale_upsample_factor ?m 0 = 4" and f1: "scale_upsample_factor ?m 1 = 2"
    by (simp_all add: scale_upsample_factor_def m)
  have sf1: "shape sample_feature = [1, 3, 1, 1]" and sf2: "shape sample_feature2 = [1, 3, 2, 2]"
    by (simp_all add: sample_feature_def sample_feature2_def shape_tabulate)
  let ?pred0 = "tabulate [1, 2, 1, 1] (\<lambda>idx. 1)"
  let ?pred1 = "tabulate [1, 2, 2, 2] (\<lambda>idx. 1)"
  have g: "global_correlation_softmax ?e sample_feature sample_feature False = Inr ?pred0"
    by (simp add: sample_externals_def sf1)
  have l: "local_correlation_softmax ?e sample_feature2 sample_feature2 1 = Inr ?pred1"
    by (simp add: sample_externals_def sf2)
  have w: "flow_warp ?e feature flow = Inr feature" for feature flow
    by (simp add: sample_externals_def)
  have flow0: "scale_flow ?m ?e F F A C R False 0 None =
      Inr (sample_feature, sample_feature, 0, ?pred0)"
    by (rule scale_flow_first_returns [where c = "- 1"])
       (simp_all add: list_get_def g F_def A_def C_def R_def)
  have "\<exists>out. upsample_flow ?m ?pred0 None True 4 = Inr out \<and>
      shape out = [1, 2, 1 * nat 4, 1 * nat 4]"
    by (rule upsample_flow_bilinear_returns [where b = 1 and c = 2 and h = 1 and w = 1])
       (simp_all add: shape_tabulate fits_def lim)
  then obtain p1 where p1: "upsample_flow ?m ?pred0 None True 4 = Inr p1"
    and sp1: "shape p1 = [1, 2, 4, 4]"
    by auto
  have "\<exists>out. upsample_flow ?m ?pred0 (Some sample_feature) True 4 = Inr out \<and>
      shape out = [1, 2, 1 * nat 4, 1 * nat 4]"
    by (rule upsample_flow_bilinear_returns [where b = 1 and c = 2 and h = 1 and w = 1])
       (simp_all add: shape_tabulate fits_def lim)
  then obtain p3 where p3: "upsample_flow ?m ?pred0 (Some sample_feature) True 4 = Inr p3"
    by auto
  have step0: "scale_step ?m ?e F F A C R False 0 (None, []) = Inr (Some ?pred0, [p1, p3])"
    by (rule scale_step_returns [where pre = "[p1]" and mid = "[p1]" and post = "[p1, p3]"
          and pa = p1 and pc = p3 and featp = sample_feature
          and feata = sample_feature and featb = sample_feature and r = 0
          and acc = ?pred0])
       (use flow0 p1 p3 m f0 attn in simp_all)
  have "\<exists>up. interpolate (arith ?m) ?pred0 2 = Inr up"
    by (rule interpolate_returns [where b = 1 and c = 2 and h = 1 and w = 1])
       (simp_all add: shape_tabulate fits_def lim)
  then obtain up where up: "interpolate (arith ?m) ?pred0 2 = Inr up"
    by blast
  have sup: "shape up = [1, 2, 2, 2]"
    using interpolate_Inr(1) [OF up, of 1 2 1 1] by (simp add: shape_tabulate)
  have same: "shape (mul_scalar (arith ?m) 2 up) = shape ?pred1"
    by (simp add: shape_mul_scalar sup shape_tabulate)
  have "\<exists>acc. binop (k_add (arith ?m)) (mul_scalar (arith ?m) 2 up) ?pred1 = Inr acc"
    by (subst binop_same_shape [OF same]) (rule exI, rule refl)
  then obtain acc where acc: "binop (k_add (arith ?m)) (mul_scalar (arith ?m) 2 up) ?pred1 = Inr acc"
    by (rule exE)
  have sacc: "shape acc = [1, 2, 2, 2]"
    using binop_same_shape_elem(1) [OF acc same] by (simp add: shape_mul_scalar sup)
  have flow1: "scale_flow ?m ?e F F A C R False 1 (Some ?pred0) =
      Inr (sample_feature2, sample_feature2, 1, acc)"
    by (rule scale_flow_later_returns [where up = up and pred = ?pred1 and c = 1 and a = 8
          and featb = sample_feature2])
       (use up l acc w in \<open>simp_all add: list_get_def F_def A_def C_def R_def\<close>)
  obtain p2 where p2: "upsample_flow ?m acc (Some sample_feature2) False 8 = Inr p2"
    using sample_convex_returns [OF m(1,2) sacc sf2, of 8] by auto
  have step1: "scale_step ?m ?e F F A C R False 1 (Some ?pred0, [p1, p3]) =
      Inr (Some acc, [p1, p3, p2, p2])"
    by (rule scale_step_returns [where pre = "[p1, p3]" and mid = "[p1, p3, p2]"
          and post = "[p1, p3, p2]" and pb = p2 and pd = p2
          and featp = sample_feature2 and feata = sample_feature2
          and featb = sample_feature2 and r = 1 and acc = acc])
       (use flow1 p2 m attn in simp_all)
  have idx: "[0..<nat (num_scales ?m)] = [0, 1]"
    by (simp add: m upt_rec)
  have run: "run_scales ?m ?e F F A C R False [0..<nat (num_scales ?m)] (None, []) =
      Inr (Some acc, [p1, p3, p2, p2])"
    unfolding idx using step0 step1 by simp
  have spred1: "shape ?pred1 = [1, 2, 2, 2]"
    by (simp add: shape_tabulate)
  from flow0 step0 p1 sp1 up sup l spred1 flow1 step1 run show ?thesis
    by blast
qed


section \<open>The number of predictions\<close>

text \<open>
  C2. The loop body appends two predictions at the last scale, and at any other scale two
  in training mode and none otherwise. A run of the loop over all scales, on any feature
  lists, therefore returns \<open>2 * num_scales\<close> predictions in training mode and 2 otherwise
  (none when there is no scale), and so does \<^verbatim>\<open>forward_image\<close> whenever it returns; for
  \<open>num_scales = 1\<close> that is 2.
\<close>

theorem forward_image_prediction_count:
  "(\<forall>st st'. scale_step m ext f0s f1s attn corr prop bidir s st = Inr st' \<longrightarrow>
      (\<exists>new. snd st' = snd st @ new \<and>
         length new = (if int s = num_scales m - 1 then 2
                       else if training m \<and> int s < num_scales m - 1 then 2 else 0)) \<and>
      (\<exists>f0 f1 r acc f0' flow'.
         scale_flow m ext f0s f1s attn corr prop bidir s (fst st) = Inr (f0, f1, r, acc) \<and>
         feature_flow_attn m f0' acc (0 < r) r = Inr flow' \<and>
         (if int s = num_scales m - 1
          then \<exists>before after.
                 upsample_flow m acc (Some f0) False 8 = Inr before \<and>
                 upsample_flow m flow' (Some f0') False 8 = Inr after \<and>
                 snd st' = snd st @ [before, after]
          else if training m \<and> int s < num_scales m - 1
          then \<exists>before after.
                 upsample_flow m acc None True (scale_upsample_factor m s) = Inr before \<and>
                 upsample_flow m flow' (Some f0') True (scale_upsample_factor m s) = Inr after \<and>
                 snd st' = snd st @ [before, after]
          else snd st' = snd st))) \<and>
   (\<forall>st'. run_scales m ext f0s f1s attn corr prop bidir [0..<nat (num_scales m)] (None, [])
            = Inr st' \<longrightarrow>
      length (snd st') = (if num_scales m \<le> 0 then 0
                          else if training m then 2 * nat (num_scales m) else 2)) \<and>
   (\<forall>d. forward_image m ext img0 img1 a c p bidir = Inr d \<longrightarrow>
      (\<exists>preds. d ''flow_preds'' = Some preds \<and>
         length preds = (if num_scales m \<le> 0 then 0
                         else if training m then 2 * nat (num_scales m) else 2) \<and>
         (num_scales m = 1 \<longrightarrow> length preds = 2)))"
proof -
  let ?total = "if num_scales m \<le> 0 then 0
                else if training m then 2 * nat (num_scales m) else (2::nat)"
  have total: "length (snd st') = ?total"
    if "run_scales m ext f0s' f1s' attn' corr' prop' bidir [0..<nat (num_scales m)] (None, [])
          = Inr st'" for st' f0s' f1s' attn' corr' prop'
  proof -
    have n: "num_scales m - 1 = int (nat (num_scales m)) - 1" if "0 < num_scales m"
      using that by simp
    show ?thesis
    proof (cases "num_scales m \<le> 0")
      case True
      then show ?thesis using that by auto
    next
      case False
      then have eq: "num_scales m - 1 = int (nat (num_scales m)) - 1"
        by simp
      from run_scales_preds [OF that] show ?thesis
        unfolding eq count_all_scales using False by simp
    qed
  qed
  have whole: "\<exists>preds. d ''flow_preds'' = Some preds \<and> length preds = ?total \<and>
         (num_scales m = 1 \<longrightarrow> length preds = 2)"
    if "forward_image m ext img0 img1 a c p bidir = Inr d" for d
  proof -
    from that obtain f0s' f1s' attn' corr' prop' flow preds where
      run: "run_scales m ext f0s' f1s' attn' corr' prop' bidir [0..<nat (num_scales m)] (None, []) =
         Inr (flow, preds)"
      and d: "d = [''flow_preds'' \<mapsto> preds]"
      by (rule forward_image_Inr)
    from total [OF run] have "length preds = ?total"
      by simp
    then show ?thesis
      by (auto simp: d)
  qed
  have step: "(\<exists>new. snd st' = snd st @ new \<and>
         length new = (if int s = num_scales m - 1 then 2
                       else if training m \<and> int s < num_scales m - 1 then 2 else 0)) \<and>
      (\<exists>f0 f1 r acc f0' flow'.
         scale_flow m ext f0s f1s attn corr prop bidir s (fst st) = Inr (f0, f1, r, acc) \<and>
         feature_flow_attn m f0' acc (0 < r) r = Inr flow' \<and>
         (if int s = num_scales m - 1
          then \<exists>before after.
                 upsample_flow m acc (Some f0) False 8 = Inr before \<and>
                 upsample_flow m flow' (Some f0') False 8 = Inr after \<and>
                 snd st' = snd st @ [before, after]
          else if training m \<and> int s < num_scales m - 1
          then \<exists>before after.
                 upsample_flow m acc None True (scale_upsample_factor m s) = Inr before \<and>
                 upsample_flow m flow' (Some f0') True (scale_upsample_factor m s) = Inr after \<and>
                 snd st' = snd st @ [before, after]
          else snd st' = snd st))"
    if run: "scale_step m ext f0s f1s attn corr prop bidir s st = Inr st'" for st st'
  proof
    show "\<exists>new. snd st' = snd st @ new \<and>
         length new = (if int s = num_scales m - 1 then 2
                       else if training m \<and> int s < num_scales m - 1 then 2 else 0)"
      by (rule scale_step_preds [OF run])
    from run show "\<exists>f0 f1 r acc f0' flow'.
         scale_flow m ext f0s f1s attn corr prop bidir s (fst st) = Inr (f0, f1, r, acc) \<and>
         feature_flow_attn m f0' acc (0 < r) r = Inr flow' \<and>
         (if int s = num_scales m - 1
          then \<exists>before after.
                 upsample_flow m acc (Some f0) False 8 = Inr before \<and>
                 upsample_flow m flow' (Some f0') False 8 = Inr after \<and>
                 snd st' = snd st @ [before, after]
          else if training m \<and> int s < num_scales m - 1
          then \<exists>before after.
                 upsample_flow m acc None True (scale_upsample_factor m s) = Inr before \<and>
                 upsample_flow m flow' (Some f0') True (scale_upsample_factor m s) = Inr after \<and>
                 snd st' = snd st @ [before, after]
          else snd st' = snd st)"
    proof (rule scale_step_Inr)
      fix feature0 feature1 r acc pre mid feature0' flow' post
      assume a: "scale_flow m ext f0s f1s attn corr prop bidir s (fst st) =
          Inr (feature0, feature1, r, acc)"
        "if training m \<and> int s < num_scales m - 1
         then \<exists>p. upsample_flow m acc None True (scale_upsample_factor m s) = Inr p \<and>
                  pre = snd st @ [p]
         else pre = snd st"
        "if int s = num_scales m - 1
         then \<exists>p. upsample_flow m acc (Some feature0) False 8 = Inr p \<and> mid = pre @ [p]
         else mid = pre"
        "feature_flow_attn m feature0' acc (0 < r) r = Inr flow'"
        "if training m \<and> int s < num_scales m - 1
         then \<exists>p. upsample_flow m flow' (Some feature0') True (scale_upsample_factor m s) =
                  Inr p \<and> post = mid @ [p]
         else post = mid"
        "if int s = num_scales m - 1
         then \<exists>p. upsample_flow m flow' (Some feature0') False 8 = Inr p \<and>
                  st' = (Some flow', post @ [p])
         else st' = (Some flow', post)"
      have "if int s = num_scales m - 1
          then \<exists>before after.
                 upsample_flow m acc (Some feature0) False 8 = Inr before \<and>
                 upsample_flow m flow' (Some feature0') False 8 = Inr after \<and>
                 snd st' = snd st @ [before, after]
          else if training m \<and> int s < num_scales m - 1
          then \<exists>before after.
                 upsample_flow m acc None True (scale_upsample_factor m s) = Inr before \<and>
                 upsample_flow m flow' (Some feature0') True (scale_upsample_factor m s) =
                   Inr after \<and>
                 snd st' = snd st @ [before, after]
          else snd st' = snd st"
        using a(2,3,5,6) by (auto split: if_splits)
      with a(1,4) show ?thesis
        by blast
    qed
  qed
  show ?thesis
    using step total whole by blast
qed

theorem forward_image_prediction_count_witness:
  "(\<exists>st. run_scales two_scale_model sample_externals
           [sample_feature, sample_feature2] [sample_feature, sample_feature2]
           [2, 8] [- 1, 1] [0, 1] False [0..<nat (num_scales two_scale_model)] (None, []) = Inr st \<and>
         length (snd st) = 4) \<and>
   (\<exists>d preds. forward_image single_scale_model sample_externals sample_image sample_image
           (Some [2]) (Some [- 1]) (Some [0]) False = Inr d \<and>
         d ''flow_preds'' = Some preds \<and> length preds = 2)"
proof
  from two_scale_run obtain st where
    run: "run_scales two_scale_model sample_externals
           [sample_feature, sample_feature2] [sample_feature, sample_feature2]
           [2, 8] [- 1, 1] [0, 1] False [0..<nat (num_scales two_scale_model)] (None, []) = Inr st"
    by blast
  have m: "num_scales two_scale_model = 2" "training two_scale_model"
    by (simp_all add: two_scale_model_def sample_model_def)
  from forward_image_prediction_count [of two_scale_model sample_externals "[sample_feature, sample_feature2]"
      "[sample_feature, sample_feature2]" "[2, 8]" "[- 1, 1]" "[0, 1]" False] run
  have "length (snd st) = (if num_scales two_scale_model \<le> 0 then 0
          else if training two_scale_model then 2 * nat (num_scales two_scale_model) else 2)"
    by blast
  then have "length (snd st) = 4"
    by (simp add: m)
  with run show "\<exists>st. run_scales two_scale_model sample_externals
           [sample_feature, sample_feature2] [sample_feature, sample_feature2]
           [2, 8] [- 1, 1] [0, 1] False [0..<nat (num_scales two_scale_model)] (None, []) = Inr st \<and>
         length (snd st) = 4"
    by blast
next
  from single_scale_run obtain d where
    run: "forward_image single_scale_model sample_externals sample_image sample_image
           (Some [2]) (Some [- 1]) (Some [0]) False = Inr d"
    by blast
  have n: "num_scales single_scale_model = 1"
    by (simp add: single_scale_model_def sample_model_def)
  from forward_image_prediction_count [of single_scale_model sample_externals _ _ _ _ _ False _ sample_image sample_image
      "Some [2]" "Some [- 1]" "Some [0]"] run n
  have "\<exists>preds. d ''flow_preds'' = Some preds \<and> length preds = 2"
    by blast
  with run show "\<exists>d preds. forward_image single_scale_model sample_externals sample_image
           sample_image (Some [2]) (Some [- 1]) (Some [0]) False = Inr d \<and>
         d ''flow_preds'' = Some preds \<and> length preds = 2"
    by blast
qed

section \<open>The check of the per-scale lists\<close>

text \<open>
  C3, as the code has it. When the three lists do not all have length \<open>num_scales\<close>,
  \<^verbatim>\<open>forward_image\<close> never returns a result: the features are extracted first, an
  exception of the extraction is the outcome of the call, and otherwise the assertion
  fails, before the loop over the scales starts.
\<close>

theorem forward_image_list_mismatch:
  assumes "\<not> (length attn = length corr \<and> length corr = length radii \<and>
              int (length radii) = num_scales m)"
  shows "forward_image m ext img0 img1 (Some attn) (Some corr) (Some radii) bidir =
           (case extract_feature m img0 img1 of
              Inl e \<Rightarrow> Inl e
            | Inr features \<Rightarrow> Inl AssertionError)"
proof (cases "extract_feature m img0 img1")
  case (Inl e)
  then show ?thesis
    by (simp add: forward_image_def)
next
  case (Inr features)
  have "check_lists m (Some attn) (Some corr) (Some radii) = Inl AssertionError"
    using assms by (auto simp: check_lists_def)
  then show ?thesis
    using Inr by (simp add: forward_image_def split: prod.splits)
qed

theorem forward_image_list_mismatch_witness:
  "forward_image single_scale_model sample_externals sample_image sample_image
     (Some [2, 2]) (Some [- 1]) (Some [0]) False = Inl AssertionError"
proof -
  from sample_extract obtain c0 c1 where
    ex: "extract_feature single_scale_model sample_image sample_image = Inr ([c0], [c1])"
    by blast
  have "\<not> (length [2, 2 :: int] = length [- 1 :: int] \<and> length [- 1 :: int] = length [0 :: int] \<and>
              int (length [0 :: int]) = num_scales single_scale_model)"
    by simp
  from forward_image_list_mismatch [OF this, of sample_externals sample_image sample_image False] show ?thesis
    by (simp add: ex)
qed

text \<open>
  C3, as the claim states it, fails. With lists of lengths 2, 1 and 1 for one scale, the
  call fails in the feature extraction and not with the assertion: with \<^verbatim>\<open>TypeError\<close>
  for the default backbone \<^verbatim>\<open>None\<close>, and with the \<^verbatim>\<open>RuntimeError\<close> of
  \<^verbatim>\<open>torch.stack\<close> for two images of different shapes. The lists are not checked
  before everything else.
\<close>

theorem forward_image_list_mismatch_counterexample:
  "forward_image sample_model sample_externals sample_image sample_image
     (Some [2, 2]) (Some [- 1]) (Some [0]) False = Inl TypeError \<and>
   forward_image single_scale_model sample_externals sample_image sample_flow
     (Some [2, 2]) (Some [- 1]) (Some [0]) False = Inl RuntimeError"
proof
  show "forward_image sample_model sample_externals sample_image sample_image
     (Some [2, 2]) (Some [- 1]) (Some [0]) False = Inl TypeError"
    by (simp add: forward_image_def sample_extract_fails)
  have "stack1 sample_image sample_flow = Inl RuntimeError"
    by (simp add: stack1_def sample_image_def sample_flow_def)
  then show "forward_image single_scale_model sample_externals sample_image sample_flow
     (Some [2, 2]) (Some [- 1]) (Some [0]) False = Inl RuntimeError"
    by (simp add: forward_image_def extract_feature_def)
qed

section \<open>Residual accumulation\<close>



section \<open>The upsample factor of a scale\<close>

text \<open>
  C5. At every scale \<open>s\<close> below \<open>num_scales\<close> the upsample factor of line 108 is
  \<open>upsample_factor * 2 ^ (num_scales - 1 - s)\<close>, which is \<open>upsample_factor\<close> for a single scale;
  it is the factor both bilinear upsamplings of a scale that is not the last are called
  with in training mode.
\<close>

theorem scale_upsample_factor_value:
  "(int s < num_scales m \<longrightarrow>
      scale_upsample_factor m s = upsample_factor m * 2 ^ (nat (num_scales m) - 1 - s)) \<and>
   (num_scales m = 1 \<longrightarrow> scale_upsample_factor m 0 = upsample_factor m) \<and>
   (\<forall>st st'. training m \<and> int s < num_scales m - 1 \<and>
       scale_step m ext f0s f1s attn corr radii bidir s st = Inr st' \<longrightarrow>
       (\<exists>f0 f1 r acc f0' flow' p1 p2.
          scale_flow m ext f0s f1s attn corr radii bidir s (fst st) = Inr (f0, f1, r, acc) \<and>
          upsample_flow m acc None True
            (upsample_factor m * 2 ^ (nat (num_scales m) - 1 - s)) = Inr p1 \<and>
          st' = (Some flow', snd st @ [p1, p2]) \<and>
          upsample_flow m flow' (Some f0') True
            (upsample_factor m * 2 ^ (nat (num_scales m) - 1 - s)) = Inr p2))"
proof -
  have one: "scale_upsample_factor m 0 = upsample_factor m" if "num_scales m = 1"
    using that by (simp add: scale_upsample_factor_def)
  have used: "\<exists>f0 f1 r acc f0' flow' p1 p2.
          scale_flow m ext f0s f1s attn corr radii bidir s (fst st) = Inr (f0, f1, r, acc) \<and>
          upsample_flow m acc None True
            (upsample_factor m * 2 ^ (nat (num_scales m) - 1 - s)) = Inr p1 \<and>
          st' = (Some flow', snd st @ [p1, p2]) \<and>
          upsample_flow m flow' (Some f0') True
            (upsample_factor m * 2 ^ (nat (num_scales m) - 1 - s)) = Inr p2"
    if tr: "training m" and s: "int s < num_scales m - 1"
      and step: "scale_step m ext f0s f1s attn corr radii bidir s st = Inr st'" for st st'
  proof -
    have f: "scale_upsample_factor m s = upsample_factor m * 2 ^ (nat (num_scales m) - 1 - s)"
      using s by (intro scale_upsample_factor_closed) simp
    have nl: "int s \<noteq> num_scales m - 1"
      using s by simp
    from step show ?thesis
      by (rule scale_step_Inr) (use tr s nl in \<open>auto simp: f\<close>)
  qed
  show ?thesis
    using scale_upsample_factor_closed [of s m] one used by blast
qed

theorem scale_upsample_factor_value_witness:
  "scale_upsample_factor two_scale_model 0 = 4 \<and>
   scale_upsample_factor two_scale_model 1 = 2 \<and>
   scale_upsample_factor single_scale_model 0 = 2 \<and>
   (\<exists>acc flow' p1 p2 f0'.
      scale_step two_scale_model sample_externals
        [sample_feature, sample_feature2] [sample_feature, sample_feature2]
        [2, 8] [- 1, 1] [0, 1] False 0 (None, []) = Inr (Some flow', [p1, p2]) \<and>
      upsample_flow two_scale_model acc None True 4 = Inr p1 \<and>
      upsample_flow two_scale_model flow' (Some f0') True 4 = Inr p2)"
proof -
  let ?F = "[sample_feature, sample_feature2]"
  have m: "num_scales two_scale_model = 2" "training two_scale_model"
    "upsample_factor two_scale_model = 2"
    by (simp_all add: two_scale_model_def sample_model_def)
  have n: "num_scales single_scale_model = 1" "upsample_factor single_scale_model = 2"
    by (simp_all add: single_scale_model_def sample_model_def)
  note i0 = scale_upsample_factor_value [of 0 two_scale_model sample_externals ?F ?F "[2, 8]" "[- 1, 1]" "[0, 1]" False]
  note i1 = scale_upsample_factor_value [of 1 two_scale_model sample_externals ?F ?F "[2, 8]" "[- 1, 1]" "[0, 1]" False]
  note j0 = scale_upsample_factor_value [of 0 single_scale_model sample_externals ?F ?F "[2, 8]" "[- 1, 1]" "[0, 1]" False]
  have a: "scale_upsample_factor two_scale_model 0 = 4"
    using i0 [THEN conjunct1] by (simp add: m)
  have b: "scale_upsample_factor two_scale_model 1 = 2"
    using i1 [THEN conjunct1] by (simp add: m)
  have c: "scale_upsample_factor single_scale_model 0 = 2"
    using j0 [THEN conjunct2, THEN conjunct1] by (simp add: n)
  from two_scale_run obtain pred0 p1 p3 where
    step: "scale_step two_scale_model sample_externals ?F ?F [2, 8] [- 1, 1] [0, 1] False 0
       (None, []) = Inr (Some pred0, [p1, p3])"
    by blast
  have pre: "training two_scale_model \<and> int 0 < num_scales two_scale_model - 1 \<and>
      scale_step two_scale_model sample_externals ?F ?F [2, 8] [- 1, 1] [0, 1] False 0
       (None, []) = Inr (Some pred0, [p1, p3])"
    using step m by simp
  have four: "upsample_factor two_scale_model * 2 ^ (nat (num_scales two_scale_model) - 1 - 0) = 4"
    by (simp add: m)
  from i0 [THEN conjunct2, THEN conjunct2, THEN spec, THEN spec, THEN mp, OF pre]
  obtain acc flow' q1 q2 f0' where
    "upsample_flow two_scale_model acc None True 4 = Inr q1"
    "(Some pred0, [p1, p3]) = (Some flow', snd (None :: tensor option, [] :: tensor list) @ [q1, q2])"
    "upsample_flow two_scale_model flow' (Some f0') True 4 = Inr q2"
    unfolding four by blast
  then have "scale_step two_scale_model sample_externals ?F ?F [2, 8] [- 1, 1] [0, 1] False 0
       (None, []) = Inr (Some flow', [q1, q2]) \<and>
      upsample_flow two_scale_model acc None True 4 = Inr q1 \<and>
      upsample_flow two_scale_model flow' (Some f0') True 4 = Inr q2"
    using step by simp
  then show ?thesis
    using a b c by blast
qed

section \<open>Bilinear upsampling\<close>



section \<open>Bidirectional flow at a single scale\<close>

text \<open>
  C7. With one scale and \<^verbatim>\<open>pred_bidir_flow\<close>, the call does not reach the propagation:
  the convex upsampling before it fails on the flow of doubled batch.
\<close>

theorem forward_image_bidirectional_single_scale:
  "forward_image single_scale_model sample_externals sample_image sample_image
     (Some [2]) (Some [- 1]) (Some [0]) True = Inl RuntimeError"
proof -
  from sample_extract obtain c0 c1 where
    ex: "extract_feature single_scale_model sample_image sample_image = Inr ([c0], [c1])"
    and s0: "shape c0 = [1, 3, 1, 1]"
    by blast
  have n: "num_scales single_scale_model = 1"
    by (simp add: single_scale_model_def sample_model_def)
  have ck: "check_lists single_scale_model (Some [2]) (Some [- 1]) (Some [0]) =
      Inr ([2], [- 1], [0])"
    by (simp add: check_lists_def n)
  let ?pred = "tabulate [2 * 1, 2, 1, 1] (\<lambda>idx. 1)"
  have g: "global_correlation_softmax sample_externals c0 c1 True = Inr ?pred"
    by (simp add: sample_externals_def s0)
  have "scale_step single_scale_model sample_externals [c0] [c1] [2] [- 1] [0] True 0 (None, [])
      = Inl RuntimeError"
    by (rule bidir_first_step_fails(2) [OF n _ _ _ _ _ g, where B = 1])
       (simp_all add: list_get_def shape_tabulate s0)
  then show ?thesis
    by (simp add: forward_image_def ex ck n)
qed

text \<open>
  C9. With one scale and \<^verbatim>\<open>pred_bidir_flow\<close>, when the global correlation returns a
  flow \<open>[2 * B, 2, h, w]\<close> for features of batch \<open>B > 0\<close>: the concatenation of line 62
  fails, hence so do the convex upsampling before the propagation, the loop body and
  \<^verbatim>\<open>forward_image\<close>; the feature tensor the upsampling after the propagation would
  receive has batch \<open>2 * B\<close>.
\<close>

theorem bidirectional_convex_upsample_fails:
  assumes N: "num_scales m = 1"
    and feats: "list_get f0s 0 = Inr feature0" "list_get f1s 0 = Inr feature1"
    and lists: "list_get attn 0 = Inr a" "list_get corr 0 = Inr (- 1)" "list_get radii 0 = Inr r"
    and contract: "global_correlation_softmax ext feature0 feature1 True = Inr flow_pred"
      "shape flow_pred = [2 * B, 2, h, w]"
    and batch: "shape feature0 = B # rest" "0 < B"
  shows "cat 1 flow_pred feature0 = Inl RuntimeError \<and>
         upsample_flow m flow_pred (Some feature0) False 8 = Inl RuntimeError \<and>
         scale_step m ext f0s f1s attn corr radii True 0 (None, preds) = Inl RuntimeError \<and>
         (\<forall>img0 img1 xs ys zs.
            extract_feature m img0 img1 = Inr (f0s, f1s) \<and>
            check_lists m xs ys zs = Inr (attn, corr, radii) \<longrightarrow>
            forward_image m ext img0 img1 xs ys zs True = Inl RuntimeError) \<and>
         (\<forall>joined. shape feature1 = shape feature0 \<and> cat 0 feature0 feature1 = Inr joined \<longrightarrow>
            shape joined = (2 * B) # rest)"
proof -
  note fails = bidir_first_step_fails [OF N feats lists contract batch]
  have c: "cat 1 flow_pred feature0 = Inl RuntimeError"
    by (rule cat_batch_mismatch [OF contract(2) batch])
  have fw: "forward_image m ext img0 img1 xs ys zs True = Inl RuntimeError"
    if "extract_feature m img0 img1 = Inr (f0s, f1s)"
      and "check_lists m xs ys zs = Inr (attn, corr, radii)" for img0 img1 xs ys zs
    using that fails(2) [of "[]"] N by (simp add: forward_image_def)
  have j: "shape joined = (2 * B) # rest"
    if "shape feature1 = shape feature0" and "cat 0 feature0 feature1 = Inr joined" for joined
    using cat_Inr_shape [OF that(2)] that(1) batch by simp
  show ?thesis
    using c fails fw j by blast
qed

theorem bidirectional_convex_upsample_fails_witness:
  "\<exists>c0 c1 flow_pred.
     extract_feature single_scale_model sample_image sample_image = Inr ([c0], [c1]) \<and>
     global_correlation_softmax sample_externals c0 c1 True = Inr flow_pred \<and>
     shape flow_pred = [2, 2, 1, 1] \<and> shape c0 = [1, 3, 1, 1] \<and>
     cat 1 flow_pred c0 = Inl RuntimeError \<and>
     upsample_flow single_scale_model flow_pred (Some c0) False 8 = Inl RuntimeError \<and>
     scale_step single_scale_model sample_externals [c0] [c1] [2] [- 1] [0] True 0 (None, []) =
       Inl RuntimeError"
proof -
  from sample_extract obtain c0 c1 where
    ex: "extract_feature single_scale_model sample_image sample_image = Inr ([c0], [c1])"
    and s0: "shape c0 = [1, 3, 1, 1]"
    by blast
  have n: "num_scales single_scale_model = 1"
    by (simp add: single_scale_model_def sample_model_def)
  let ?pred = "tabulate [2 * 1, 2, 1, 1] (\<lambda>idx. 1)"
  have g: "global_correlation_softmax sample_externals c0 c1 True = Inr ?pred"
    by (simp add: sample_externals_def s0)
  have sp: "shape ?pred = [2 * 1, 2, 1, 1]"
    by (simp add: shape_tabulate)
  have l: "list_get [c0] 0 = Inr c0" "list_get [c1] 0 = Inr c1"
    "list_get [2 :: int] 0 = Inr 2" "list_get [- 1 :: int] 0 = Inr (- 1)"
    "list_get [0 :: int] 0 = Inr 0"
    by (simp_all add: list_get_def)
  note inst = bidirectional_convex_upsample_fails [OF n l g sp s0, of "[]"]
  from inst have "cat 1 ?pred c0 = Inl RuntimeError"
    "upsample_flow single_scale_model ?pred (Some c0) False 8 = Inl RuntimeError"
    "scale_step single_scale_model sample_externals [c0] [c1] [2] [- 1] [0] True 0 (None, []) =
       Inl RuntimeError"
    by simp_all
  moreover have "shape ?pred = [2, 2, 1, 1]"
    by (simp add: shape_tabulate)
  ultimately show ?thesis
    using ex g s0 by blast
qed

section \<open>The factor argument in convex mode\<close>



end
